theory Spec2Isabelle
  imports Main "HOL-Library.Sublist" "HOL-Library.List_Lexorder"
begin

section \<open>Python values, strings and exceptions\<close>

text \<open>
  A Python \<^verbatim>\<open>str\<close> is a sequence of Unicode code points, so it is modelled as a list
  of naturals. A literal of the source is written \<open>U ''...''\<close>, the code points of an
  ASCII text.
\<close>

type_synonym pystr = "nat list"

abbreviation (input) U :: "string \<Rightarrow> pystr" where
  "U s \<equiv> map of_char s"

text \<open>
  The values a tool argument can take. A float is kept as mantissa and exponent; only its
  type is ever inspected. \<^verbatim>\<open>bool\<close> is a subclass of \<^verbatim>\<open>int\<close> in Python.
\<close>

datatype py_value =
    PyNone
  | PyBool bool
  | PyInt int
  | PyFloat int int
  | PyStr pystr
  | PyList "py_value list"
  | PyDict "(py_value \<times> py_value) list"

text \<open>\<^verbatim>\<open>type(v).__name__\<close>\<close>

fun type_name :: "py_value \<Rightarrow> pystr" where
  "type_name PyNone = U ''NoneType''"
| "type_name (PyBool _) = U ''bool''"
| "type_name (PyInt _) = U ''int''"
| "type_name (PyFloat _ _) = U ''float''"
| "type_name (PyStr _) = U ''str''"
| "type_name (PyList _) = U ''list''"
| "type_name (PyDict _) = U ''dict''"

text \<open>\<^verbatim>\<open>isinstance(v, int)\<close>: true of integers and of booleans.\<close>

fun isinstance_int :: "py_value \<Rightarrow> bool" where
  "isinstance_int (PyInt _) = True"
| "isinstance_int (PyBool _) = True"
| "isinstance_int _ = False"

text \<open>The integer a value of type \<^verbatim>\<open>int\<close> (or \<^verbatim>\<open>bool\<close>) compares as.\<close>

fun int_of_value :: "py_value \<Rightarrow> int" where
  "int_of_value (PyInt n) = n"
| "int_of_value (PyBool b) = (if b then 1 else 0)"
| "int_of_value _ = 0"

text \<open>\<^verbatim>\<open>str(n)\<close> for an integer: decimal digits, with a minus sign when negative.\<close>

fun str_nat :: "nat \<Rightarrow> pystr" where
  "str_nat n = (if n < 10 then [48 + n] else str_nat (n div 10) @ [48 + n mod 10])"

declare str_nat.simps [simp del]

definition str_int :: "int \<Rightarrow> pystr" where
  "str_int i = (if i < 0 then 45 # str_nat (nat (- i)) else str_nat (nat i))"

text \<open>What an f-string prints for a level that passed the \<^verbatim>\<open>isinstance\<close> check.\<close>

fun str_value :: "py_value \<Rightarrow> pystr" where
  "str_value (PyInt n) = str_int n"
| "str_value (PyBool b) = (if b then U ''True'' else U ''False'')"
| "str_value v = type_name v"

text \<open>
  The exception classes the code raises or catches, and those an external call may raise.
  \<^verbatim>\<open>ValidationError\<close> is declared in \<^verbatim>\<open>validation.py\<close> as a subclass of
  \<^verbatim>\<open>ValueError\<close>. \<open>OtherException\<close> stands for any other subclass of \<^verbatim>\<open>Exception\<close>.
  \<^verbatim>\<open>asyncio.CancelledError\<close>, \<^verbatim>\<open>KeyboardInterrupt\<close> and \<^verbatim>\<open>SystemExit\<close> derive from
  \<^verbatim>\<open>BaseException\<close> only: an \<^verbatim>\<open>except Exception\<close> clause does not catch them.
\<close>

datatype exc_class =
    ValidationError
  | ValueError
  | RuntimeError
  | KeyError
  | OSError
  | OtherException
  | CancelledError
  | KeyboardInterrupt
  | SystemExit

datatype py_exc = Exc (exc_cls: exc_class) (exc_text: pystr)

text \<open>\<^verbatim>\<open>isinstance(e, Exception)\<close>\<close>

fun is_Exception :: "py_exc \<Rightarrow> bool" where
  "is_Exception (Exc c _) = (c \<noteq> CancelledError \<and> c \<noteq> KeyboardInterrupt \<and> c \<noteq> SystemExit)"

text \<open>\<^verbatim>\<open>isinstance(e, ValueError)\<close>\<close>

fun is_ValueError :: "py_exc \<Rightarrow> bool" where
  "is_ValueError (Exc c _) = (c = ValueError \<or> c = ValidationError)"

section \<open>validation.py\<close>

text \<open>
  \<^verbatim>\<open>str.strip()\<close> removes the code points for which CPython's
  \<^verbatim>\<open>_PyUnicode_IsWhitespace\<close> holds from both ends.
\<close>

definition is_space :: "nat \<Rightarrow> bool" where
  "is_space c \<longleftrightarrow>
     (9 \<le> c \<and> c \<le> 13) \<or> (28 \<le> c \<and> c \<le> 32) \<or> c = 133 \<or> c = 160 \<or> c = 5760 \<or>
     (8192 \<le> c \<and> c \<le> 8202) \<or> c = 8232 \<or> c = 8233 \<or> c = 8239 \<or> c = 8287 \<or> c = 12288"

definition strip :: "pystr \<Rightarrow> pystr" where
  "strip s = rev (dropWhile is_space (rev (dropWhile is_space s)))"

text \<open>
  \<^verbatim>\<open>validate_host_ip\<close>. The parser \<^verbatim>\<open>ipaddress.ip_address\<close> belongs to the standard
  library; it is the parameter \<open>ip_address\<close>, true where the call returns and false
  where it raises \<^verbatim>\<open>ValueError\<close>.
\<close>

definition validate_host_ip :: "(pystr \<Rightarrow> bool) \<Rightarrow> pystr \<Rightarrow> py_exc + pystr" where
  "validate_host_ip ip_address host =
     (if host = [] \<or> strip host = [] then Inl (Exc ValidationError (U ''Host IP cannot be empty''))
      else let host' = strip host in
        if \<not> ip_address host'
        then Inl (Exc ValidationError (U ''Invalid IP address format: '' @ host'))
        else Inr host')"

text \<open>\<^verbatim>\<open>validate_device_level\<close>, on whatever value the caller passed.\<close>

definition validate_device_level :: "py_value \<Rightarrow> py_exc + py_value" where
  "validate_device_level level =
     (if \<not> isinstance_int level
      then Inl (Exc ValidationError (U ''Device level must be an integer, got '' @ type_name level))
      else if \<not> (0 \<le> int_of_value level \<and> int_of_value level \<le> 100)
      then Inl (Exc ValidationError
                 (U ''Device level must be between 0 and 100, got '' @ str_value level))
      else Inr level)"

text \<open>\<^verbatim>\<open>sep.join(xs)\<close>\<close>

fun join :: "pystr \<Rightarrow> pystr list \<Rightarrow> pystr" where
  "join sep [] = []"
| "join sep [x] = x"
| "join sep (x # y # ys) = x @ sep @ join sep (y # ys)"

text \<open>
  \<^verbatim>\<open>validate_domain\<close>. \<^verbatim>\<open>str.lower\<close> follows the Unicode case tables of the
  interpreter; it is the parameter \<open>lower\<close>. The set literal of the source is kept as a
  list; \<^verbatim>\<open>sorted\<close> orders strings by code point, as the lexicographic order on lists does.
\<close>

definition valid_domains :: "pystr list" where
  "valid_domains = [U ''light'', U ''switch'', U ''cover'', U ''sensor'', U ''fan'']"

definition validate_domain :: "(pystr \<Rightarrow> pystr) \<Rightarrow> pystr \<Rightarrow> py_exc + pystr" where
  "validate_domain lower domain =
     (if domain = [] \<or> strip domain = [] then Inl (Exc ValidationError (U ''Domain cannot be empty''))
      else let domain' = lower (strip domain) in
        if domain' \<notin> set valid_domains
        then Inl (Exc ValidationError
               (U ''Invalid domain '' @ [39] @ domain' @ [39] @ U ''. Valid domains are: '' @
                join (U '', '') (sort valid_domains)))
        else Inr domain')"

section \<open>Paths, the environment and the outside world\<close>

text \<open>
  A \<^verbatim>\<open>pathlib.Path\<close> on POSIX: its anchor (\<open>/\<close> for an absolute path, empty for a
  relative one) and its components.
\<close>

datatype path = Path (anchor: pystr) (parts: "pystr list")

text \<open>\<^verbatim>\<open>str(p)\<close>\<close>

definition str_path :: "path \<Rightarrow> pystr" where
  "str_path p = (if anchor p = [] \<and> parts p = [] then U ''.'' else anchor p @ join (U ''/'') (parts p))"

text \<open>\<^verbatim>\<open>p / name\<close>, for a name that is a single relative component, as the three fixed
  file names are.\<close>

definition joinpath :: "path \<Rightarrow> pystr \<Rightarrow> path" where
  "joinpath p name = Path (anchor p) (parts p @ [name])"

text \<open>\<^verbatim>\<open>p.is_relative_to(q)\<close>\<close>

definition is_relative_to :: "path \<Rightarrow> path \<Rightarrow> bool" where
  "is_relative_to p q \<longleftrightarrow> anchor p = anchor q \<and> prefix (parts q) (parts p)"

text \<open>The directory itself and every ancestor, which \<^verbatim>\<open>mkdir(parents=True)\<close> creates.\<close>

definition ancestors :: "path \<Rightarrow> path set" where
  "ancestors p = set (map (Path (anchor p)) (prefixes (parts p)))"

text \<open>\<^verbatim>\<open>os.path.join(a, b)\<close> for a relative, non-empty \<open>b\<close>.\<close>

definition os_path_join :: "pystr \<Rightarrow> pystr \<Rightarrow> pystr" where
  "os_path_join a b = (if a = [] \<or> last a = 47 then a @ b else a @ [47] @ b)"

text \<open>The handle \<^verbatim>\<open>Smartbridge.create_tls\<close> returns, named by the arguments it was built from.\<close>

datatype smartbridge = Smartbridge pystr pystr pystr pystr

text \<open>The ready notification handed to \<^verbatim>\<open>pair_bridge\<close>, named by the text it returns.\<close>

datatype callback = Callback pystr

datatype log_level = INFO | WARNING | ERROR

text \<open>
  Every call that leaves the process is recorded: the pairing primitive of
  \<^verbatim>\<open>pylutron_caseta\<close>, the file system, the bridge client, the logger and the console.
\<close>

datatype event =
    AsyncPair pystr
  | Called callback
  | Print pystr
  | Log log_level pystr
  | Mkdir path
  | OpenW path
  | Write path pystr
  | Chmod path nat
  | CreateTls pystr pystr pystr pystr
  | BridgeConnect smartbridge
  | BridgeClose smartbridge
  | GetDevicesByDomain smartbridge pystr
  | TurnOn smartbridge pystr
  | TurnOff smartbridge pystr
  | SetValue smartbridge pystr int

record file_node =
  content :: pystr
  mode :: nat

record world =
  trace :: "event list"
  files :: "path \<rightharpoonup> file_node"
  dirs :: "path set"

text \<open>
  What the code cannot decide: the process environment, the standard library's parsers and
  path resolution, and the outcome of every external call given the calls made so far.
  \<open>raises\<close> says whether a call raises, and what.
\<close>

record env =
  getenv :: "pystr \<rightharpoonup> pystr"
  ip_address :: "pystr \<Rightarrow> bool"
  lower :: "pystr \<Rightarrow> pystr"
  os_expanduser :: "pystr \<Rightarrow> pystr"
  expanduser :: "pystr \<Rightarrow> py_exc + path"
  resolve :: "pystr \<Rightarrow> py_exc + path"
  home_dir :: "py_exc + path"
  tmp_dir :: "py_exc + path"
  absolute :: "path \<Rightarrow> py_exc + path"
  default_mode :: nat
  async_pair_result :: "event list \<Rightarrow> pystr \<Rightarrow> py_exc + (pystr \<rightharpoonup> pystr)"
  async_pair_ready :: "event list \<Rightarrow> pystr \<Rightarrow> bool"
  raises :: "event list \<Rightarrow> event \<Rightarrow> py_exc option"
  bridge_devices :: "event list \<Rightarrow> smartbridge \<Rightarrow> pystr \<Rightarrow> py_value list option"

text \<open>Sequencing of statements that may raise, over a state that is passed along.\<close>

type_synonym ('s, 'a) action = "'s \<Rightarrow> (py_exc + 'a) \<times> 's"

definition ok :: "'a \<Rightarrow> ('s, 'a) action" where
  "ok x s = (Inr x, s)"

definition raise_exc :: "py_exc \<Rightarrow> ('s, 'a) action" where
  "raise_exc e s = (Inl e, s)"

definition pure_step :: "py_exc + 'a \<Rightarrow> ('s, 'a) action" where
  "pure_step r s = (r, s)"

definition bindx :: "('s, 'a) action \<Rightarrow> ('a \<Rightarrow> ('s, 'b) action) \<Rightarrow> ('s, 'b) action" where
  "bindx m f s = (case m s of (Inl e, s') \<Rightarrow> (Inl e, s') | (Inr x, s') \<Rightarrow> f x s')"

text \<open>\<^verbatim>\<open>try: m except Exception as e: h e\<close>\<close>

definition catchx :: "('s, 'a) action \<Rightarrow> (py_exc \<Rightarrow> ('s, 'a) action) \<Rightarrow> ('s, 'a) action" where
  "catchx m h s =
     (case m s of
        (Inl e, s') \<Rightarrow> if is_Exception e then h e s' else (Inl e, s')
      | (Inr x, s') \<Rightarrow> (Inr x, s'))"

definition emit :: "event \<Rightarrow> world \<Rightarrow> world" where
  "emit ev w = w\<lparr>trace := trace w @ [ev]\<rparr>"

text \<open>An external call: recorded, and raising when the environment says so.\<close>

definition ext_call :: "env \<Rightarrow> event \<Rightarrow> (world, unit) action" where
  "ext_call E ev w =
     (case raises E (trace w) ev of
        Some e \<Rightarrow> (Inl e, emit ev w)
      | None \<Rightarrow> (Inr (), emit ev w))"

text \<open>The logger writes to stderr and does not raise.\<close>

definition logger :: "log_level \<Rightarrow> pystr \<Rightarrow> world \<Rightarrow> world" where
  "logger l msg w = emit (Log l msg) w"

text \<open>\<^verbatim>\<open>p.mkdir(parents=True, exist_ok=True)\<close>\<close>

definition mkdir :: "env \<Rightarrow> path \<Rightarrow> (world, unit) action" where
  "mkdir E p = bindx (ext_call E (Mkdir p)) (\<lambda>_ w. (Inr (), w\<lparr>dirs := dirs w \<union> ancestors p\<rparr>))"

text \<open>\<^verbatim>\<open>open(p, "w")\<close>: the file is created, or truncated with its mode kept.\<close>

definition open_w :: "env \<Rightarrow> path \<Rightarrow> (world, unit) action" where
  "open_w E p = bindx (ext_call E (OpenW p)) (\<lambda>_ w.
     (Inr (), w\<lparr>files := (files w)(p \<mapsto>
        \<lparr>content = [], mode = (case files w p of None \<Rightarrow> default_mode E | Some f \<Rightarrow> mode f)\<rparr>)\<rparr>))"

text \<open>\<^verbatim>\<open>f.write(s)\<close> on the file just opened, flushed when the \<^verbatim>\<open>with\<close> block ends.\<close>

definition write_file :: "env \<Rightarrow> path \<Rightarrow> pystr \<Rightarrow> (world, unit) action" where
  "write_file E p s = bindx (ext_call E (Write p s)) (\<lambda>_ w.
     (Inr (), w\<lparr>files := (files w)(p \<mapsto>
        \<lparr>content = s, mode = (case files w p of None \<Rightarrow> default_mode E | Some f \<Rightarrow> mode f)\<rparr>)\<rparr>))"

text \<open>\<^verbatim>\<open>p.chmod(m)\<close>\<close>

definition chmod :: "env \<Rightarrow> path \<Rightarrow> nat \<Rightarrow> (world, unit) action" where
  "chmod E p m = bindx (ext_call E (Chmod p m)) (\<lambda>_ w.
     (case files w p of
        None \<Rightarrow> (Inl (Exc OSError (U ''No such file or directory'')), w)
      | Some f \<Rightarrow> (Inr (), w\<lparr>files := (files w)(p \<mapsto> f\<lparr>mode := m\<rparr>)\<rparr>)))"

text \<open>\<^verbatim>\<open>d[k]\<close> on a dictionary: \<^verbatim>\<open>KeyError\<close>, whose text is the quoted key, when absent.\<close>

definition subscript :: "(pystr \<rightharpoonup> pystr) \<Rightarrow> pystr \<Rightarrow> py_exc + pystr" where
  "subscript d k = (case d k of None \<Rightarrow> Inl (Exc KeyError ([39] @ k @ [39])) | Some v \<Rightarrow> Inr v)"

definition bind_exc :: "py_exc + 'a \<Rightarrow> ('a \<Rightarrow> py_exc + 'b) \<Rightarrow> py_exc + 'b" where
  "bind_exc r f = (case r of Inl e \<Rightarrow> Inl e | Inr x \<Rightarrow> f x)"

text \<open>
  \<^verbatim>\<open>validate_cert_directory\<close>. The \<^verbatim>\<open>except (OSError, ValueError)\<close> clause also catches
  the \<^verbatim>\<open>ValidationError\<close> raised inside the \<^verbatim>\<open>try\<close> block, a subclass of
  \<^verbatim>\<open>ValueError\<close>.
\<close>

definition validate_cert_directory :: "env \<Rightarrow> pystr \<Rightarrow> py_exc + pystr" where
  "validate_cert_directory E cert_dir =
     (if cert_dir = [] \<or> strip cert_dir = []
      then Inl (Exc ValidationError (U ''Certificate directory cannot be empty''))
      else
        case bind_exc (resolve E cert_dir) (\<lambda>cert_dir_path.
             bind_exc (home_dir E) (\<lambda>home.
             bind_exc (tmp_dir E) (\<lambda>tmp.
               if \<not> (is_relative_to cert_dir_path home \<or> is_relative_to cert_dir_path tmp)
               then Inl (Exc ValidationError
                      (U ''Certificate directory must be within home directory or temp directory: '' @
                       str_path cert_dir_path))
               else Inr (str_path cert_dir_path)))) of
          Inl e \<Rightarrow>
            if exc_cls e = OSError \<or> is_ValueError e
            then Inl (Exc ValidationError (U ''Invalid certificate directory path: '' @ cert_dir))
            else Inl e
        | Inr r \<Rightarrow> Inr r)"

section \<open>pairing.py\<close>

definition DEFAULT_CERT_DIR :: "env \<Rightarrow> pystr" where
  "DEFAULT_CERT_DIR E = os_expanduser E (U ''~/.config/lutron-caseta-mcp'')"

definition get_cert_dir :: "env \<Rightarrow> (world, pystr) action" where
  "get_cert_dir E w =
     (let cert_dir = (case getenv E (U ''LUTRON_CERT_DIR'') of
                        None \<Rightarrow> DEFAULT_CERT_DIR E | Some v \<Rightarrow> v) in
      case validate_cert_directory E cert_dir of
        Inr d \<Rightarrow> (Inr d, w)
      | Inl e \<Rightarrow>
          if exc_cls e = ValidationError
          then (Inr (DEFAULT_CERT_DIR E),
                logger WARNING (U ''Falling back to default directory: '' @ DEFAULT_CERT_DIR E)
                  (logger WARNING (U ''Certificate directory validation failed: '' @ exc_text e) w))
          else (Inl e, w))"

record pairing_result =
  success :: bool
  message :: pystr
  data :: "(pystr \<times> pystr) list option"

text \<open>The inner function \<^verbatim>\<open>_ready\<close> of \<^verbatim>\<open>pair_bridge\<close>.\<close>

definition ready :: "callback option \<Rightarrow> world \<Rightarrow> world" where
  "ready ready_callback w =
     (case ready_callback of
        Some cb \<Rightarrow> emit (Called cb) w
      | None \<Rightarrow> emit (Print (U ''You have 30 seconds...''))
                 (emit (Print (U ''Press the small black button on the back of the bridge.'')) w))"

text \<open>
  The external primitive \<^verbatim>\<open>pylutron_caseta.pairing.async_pair\<close>: it may invoke the ready
  notification, and it returns the credential dictionary or raises.
\<close>

definition async_pair :: "env \<Rightarrow> pystr \<Rightarrow> callback option \<Rightarrow> (world, pystr \<rightharpoonup> pystr) action" where
  "async_pair E host ready_callback w =
     (let w1 = emit (AsyncPair host) w in
      (async_pair_result E (trace w) host,
       if async_pair_ready E (trace w) host then ready ready_callback w1 else w1))"

text \<open>\<^verbatim>\<open>with open(p, "w") as f: f.write(data[k])\<close>\<close>

definition write_text :: "env \<Rightarrow> path \<Rightarrow> (pystr \<rightharpoonup> pystr) \<Rightarrow> pystr \<Rightarrow> (world, unit) action" where
  "write_text E p d k =
     bindx (open_w E p) (\<lambda>_.
     bindx (pure_step (subscript d k)) (\<lambda>s.
     write_file E p s))"

text \<open>The \<^verbatim>\<open>try\<close> block of \<^verbatim>\<open>pair_bridge\<close>; \<open>384\<close> is \<^verbatim>\<open>0o600\<close>.\<close>

definition pair_bridge_try ::
  "env \<Rightarrow> pystr \<Rightarrow> pystr \<Rightarrow> callback option \<Rightarrow> (world, pairing_result) action" where
  "pair_bridge_try E host output_dir ready_callback =
     bindx (async_pair E host ready_callback) (\<lambda>data.
     bindx (pure_step (expanduser E output_dir)) (\<lambda>output_path.
     bindx (mkdir E output_path) (\<lambda>_.
     let ca_path = joinpath output_path (U ''caseta-bridge.crt'');
         cert_path = joinpath output_path (U ''caseta.crt'');
         key_path = joinpath output_path (U ''caseta.key'') in
     bindx (write_text E ca_path data (U ''ca'')) (\<lambda>_.
     bindx (write_text E cert_path data (U ''cert'')) (\<lambda>_.
     bindx (write_text E key_path data (U ''key'')) (\<lambda>_.
     bindx (chmod E key_path 384) (\<lambda>_.
     bindx (pure_step (subscript data (U ''version''))) (\<lambda>version.
     bindx (pure_step (absolute E output_path)) (\<lambda>absolute_path.
     ok \<lparr>success = True,
         message = U ''Successfully paired with '' @ version @
                   U ''. Certificate files saved to: '' @ str_path absolute_path,
         data = Some [(U ''version'', version),
                      (U ''ca_path'', str_path ca_path),
                      (U ''cert_path'', str_path cert_path),
                      (U ''key_path'', str_path key_path)]\<rparr>)))))))))"

definition pair_bridge ::
  "env \<Rightarrow> pystr \<Rightarrow> pystr \<Rightarrow> callback option \<Rightarrow> (world, pairing_result) action" where
  "pair_bridge E host output_dir ready_callback =
     catchx (pair_bridge_try E host output_dir ready_callback)
       (\<lambda>e. ok \<lparr>success = False, message = U ''Pairing failed: '' @ exc_text e, data = None\<rparr>)"

section \<open>server.py\<close>

record lutron_config =
  cfg_bridge_ip :: pystr
  cfg_cert_dir :: pystr
  cfg_key_path :: pystr
  cfg_cert_path :: pystr
  cfg_ca_path :: pystr

text \<open>\<^verbatim>\<open>LutronConfig.from_env\<close>\<close>

definition from_env :: "env \<Rightarrow> (world, lutron_config) action" where
  "from_env E = bindx (get_cert_dir E) (\<lambda>cert_dir.
     ok \<lparr>cfg_bridge_ip = (case getenv E (U ''LUTRON_BRIDGE_IP'') of None \<Rightarrow> [] | Some v \<Rightarrow> v),
         cfg_cert_dir = cert_dir,
         cfg_key_path = os_path_join cert_dir (U ''caseta.key''),
         cfg_cert_path = os_path_join cert_dir (U ''caseta.crt''),
         cfg_ca_path = os_path_join cert_dir (U ''caseta-bridge.crt'')\<rparr>)"

text \<open>\<^verbatim>\<open>LutronCasetaManager\<close> and its constructor.\<close>

record manager =
  bridge_ip :: pystr
  key_path :: pystr
  cert_path :: pystr
  ca_path :: pystr
  bridge :: "smartbridge option"
  connected :: bool

definition new_manager :: "pystr \<Rightarrow> pystr \<Rightarrow> pystr \<Rightarrow> pystr \<Rightarrow> manager" where
  "new_manager ip key cert ca =
     \<lparr>bridge_ip = ip, key_path = key, cert_path = cert, ca_path = ca,
      bridge = None, connected = False\<rparr>"

text \<open>
  The methods that assign to \<^verbatim>\<open>self\<close> return the manager along with the world. The
  \<^verbatim>\<open>try\<close>/\<^verbatim>\<open>except Exception\<close> of \<^verbatim>\<open>connect\<close> is the \<open>Inl\<close> branch of each call in
  its body: an instance of \<^verbatim>\<open>Exception\<close> is logged and answered with \<^verbatim>\<open>False\<close>, anything
  else goes on to the caller.
\<close>

definition connect :: "env \<Rightarrow> manager \<Rightarrow> world \<Rightarrow> (py_exc + bool) \<times> manager \<times> world" where
  "connect E m w =
     (case ext_call E (CreateTls (bridge_ip m) (key_path m) (cert_path m) (ca_path m)) w of
        (Inl e, w1) \<Rightarrow>
          if is_Exception e
          then (Inr False, m,
                logger ERROR (U ''Failed to connect to Lutron Caseta bridge: '' @ exc_text e) w1)
          else (Inl e, m, w1)
      | (Inr _, w1) \<Rightarrow>
          let b = Smartbridge (bridge_ip m) (key_path m) (cert_path m) (ca_path m);
              m1 = m\<lparr>bridge := Some b\<rparr> in
          (case ext_call E (BridgeConnect b) w1 of
             (Inl e, w2) \<Rightarrow>
               if is_Exception e
               then (Inr False, m1,
                     logger ERROR (U ''Failed to connect to Lutron Caseta bridge: '' @ exc_text e) w2)
               else (Inl e, m1, w2)
           | (Inr _, w2) \<Rightarrow> (Inr True, m1\<lparr>connected := True\<rparr>, w2)))"

definition disconnect :: "env \<Rightarrow> manager \<Rightarrow> world \<Rightarrow> (py_exc + unit) \<times> manager \<times> world" where
  "disconnect E m w =
     (case bridge m of
        Some b \<Rightarrow>
          if connected m
          then (case ext_call E (BridgeClose b) w of
                  (Inl e, w1) \<Rightarrow> (Inl e, m, w1)
                | (Inr _, w1) \<Rightarrow> (Inr (), m\<lparr>connected := False\<rparr>, w1))
          else (Inr (), m, w)
      | None \<Rightarrow> (Inr (), m, w))"

definition not_connected :: py_exc where
  "not_connected = Exc RuntimeError (U ''Not connected to Lutron Caseta bridge'')"

definition get_devices_by_domain :: "env \<Rightarrow> manager \<Rightarrow> pystr \<Rightarrow> (world, py_value list) action" where
  "get_devices_by_domain E m domain w =
     (if \<not> connected m \<or> bridge m = None then (Inl not_connected, w)
      else case bridge m of
        None \<Rightarrow> (Inl not_connected, w)
      | Some b \<Rightarrow>
          (case ext_call E (GetDevicesByDomain b domain) w of
             (Inl e, w1) \<Rightarrow> (Inl e, w1)
           | (Inr _, w1) \<Rightarrow>
               (Inr (case bridge_devices E (trace w) b domain of None \<Rightarrow> [] | Some devices \<Rightarrow> devices),
                w1)))"

definition turn_on :: "env \<Rightarrow> manager \<Rightarrow> pystr \<Rightarrow> (world, bool) action" where
  "turn_on E m device_id w =
     (if \<not> connected m \<or> bridge m = None then (Inl not_connected, w)
      else case bridge m of
        None \<Rightarrow> (Inl not_connected, w)
      | Some b \<Rightarrow>
          (case ext_call E (TurnOn b device_id) w of
             (Inl e, w1) \<Rightarrow>
               if is_Exception e
               then (Inr False,
                     logger ERROR (U ''Failed to turn on device '' @ device_id @ U '': '' @ exc_text e) w1)
               else (Inl e, w1)
           | (Inr _, w1) \<Rightarrow> (Inr True, w1)))"

definition turn_off :: "env \<Rightarrow> manager \<Rightarrow> pystr \<Rightarrow> (world, bool) action" where
  "turn_off E m device_id w =
     (if \<not> connected m \<or> bridge m = None then (Inl not_connected, w)
      else case bridge m of
        None \<Rightarrow> (Inl not_connected, w)
      | Some b \<Rightarrow>
          (case ext_call E (TurnOff b device_id) w of
             (Inl e, w1) \<Rightarrow>
               if is_Exception e
               then (Inr False,
                     logger ERROR (U ''Failed to turn off device '' @ device_id @ U '': '' @ exc_text e) w1)
               else (Inl e, w1)
           | (Inr _, w1) \<Rightarrow> (Inr True, w1)))"

definition set_level :: "env \<Rightarrow> manager \<Rightarrow> pystr \<Rightarrow> int \<Rightarrow> (world, bool) action" where
  "set_level E m device_id level w =
     (if \<not> connected m \<or> bridge m = None then (Inl not_connected, w)
      else if \<not> (0 \<le> level \<and> level \<le> 100)
      then (Inl (Exc ValueError (U ''Level must be between 0 and 100'')), w)
      else case bridge m of
        None \<Rightarrow> (Inl not_connected, w)
      | Some b \<Rightarrow>
          (case ext_call E (SetValue b device_id level) w of
             (Inl e, w1) \<Rightarrow>
               if is_Exception e
               then (Inr False,
                     logger ERROR (U ''Failed to set value for device '' @ device_id @ U '': '' @ exc_text e) w1)
               else (Inl e, w1)
           | (Inr _, w1) \<Rightarrow> (Inr True, w1)))"

text \<open>\<^verbatim>\<open>MCPServerState\<close>; the module's global \<^verbatim>\<open>server_state\<close> is a \<open>server_state option\<close>.\<close>

record server_state =
  config :: "lutron_config option"
  caseta_manager :: "manager option"
  srv_connected :: bool

definition new_server_state :: server_state where
  "new_server_state = \<lparr>config = None, caseta_manager = None, srv_connected = False\<rparr>"

definition update_config ::
  "env \<Rightarrow> server_state \<Rightarrow> pystr \<Rightarrow> world \<Rightarrow> (py_exc + bool) \<times> server_state \<times> world" where
  "update_config E st new_ip w =
     (case config st of
        Some c \<Rightarrow> (Inr True, st\<lparr>config := Some (c\<lparr>cfg_bridge_ip := new_ip\<rparr>)\<rparr>, w)
      | None \<Rightarrow>
          (case from_env E w of
             (Inl e, w1) \<Rightarrow> (Inl e, st, w1)
           | (Inr c, w1) \<Rightarrow> (Inr True, st\<lparr>config := Some (c\<lparr>cfg_bridge_ip := new_ip\<rparr>)\<rparr>, w1)))"

text \<open>The results of the tools are dictionaries, kept in the order of the literal.\<close>

type_synonym py_dict = "(pystr \<times> py_value) list"

definition tool_not_connected :: py_exc where
  "tool_not_connected =
     Exc RuntimeError (U ''Not connected to Lutron Caseta bridge. Use pair_bridge tool first.'')"

text \<open>\<^verbatim>\<open>not server_state or not server_state.caseta_manager or not server_state.connected\<close>\<close>

definition connected_manager :: "server_state option \<Rightarrow> manager option" where
  "connected_manager ss =
     (case ss of
        None \<Rightarrow> None
      | Some st \<Rightarrow>
          (case caseta_manager st of
             None \<Rightarrow> None
           | Some m \<Rightarrow> if \<not> srv_connected st then None else Some m))"

definition list_devices :: "env \<Rightarrow> server_state option \<Rightarrow> pystr \<Rightarrow> (world, py_value list) action" where
  "list_devices E ss domain w =
     (case connected_manager ss of
        None \<Rightarrow> (Inl tool_not_connected, w)
      | Some m \<Rightarrow>
          (case validate_domain (lower E) domain of
             Inl e \<Rightarrow>
               if exc_cls e = ValidationError then (Inl (Exc ValueError (exc_text e)), w)
               else (Inl e, w)
           | Inr domain' \<Rightarrow> get_devices_by_domain E m domain' w))"

definition turn_on_device :: "env \<Rightarrow> server_state option \<Rightarrow> pystr \<Rightarrow> (world, py_dict) action" where
  "turn_on_device E ss device_id w =
     (case connected_manager ss of
        None \<Rightarrow> (Inl tool_not_connected, w)
      | Some m \<Rightarrow>
          bindx (turn_on E m device_id) (\<lambda>success.
            ok [(U ''device_id'', PyStr device_id), (U ''action'', PyStr (U ''turn_on'')),
                (U ''success'', PyBool success)]) w)"

definition turn_off_device :: "env \<Rightarrow> server_state option \<Rightarrow> pystr \<Rightarrow> (world, py_dict) action" where
  "turn_off_device E ss device_id w =
     (case connected_manager ss of
        None \<Rightarrow> (Inl tool_not_connected, w)
      | Some m \<Rightarrow>
          bindx (turn_off E m device_id) (\<lambda>success.
            ok [(U ''device_id'', PyStr device_id), (U ''action'', PyStr (U ''turn_off'')),
                (U ''success'', PyBool success)]) w)"

text \<open>
  \<^verbatim>\<open>set_device_level\<close>. A level that passed validation is an integer or a boolean; the
  manager compares it, and hands it to the bridge, as the integer it equals.
\<close>

definition set_device_level ::
  "env \<Rightarrow> server_state option \<Rightarrow> pystr \<Rightarrow> py_value \<Rightarrow> (world, py_dict) action" where
  "set_device_level E ss device_id level w =
     (case connected_manager ss of
        None \<Rightarrow> (Inl tool_not_connected, w)
      | Some m \<Rightarrow>
          (case validate_device_level level of
             Inl e \<Rightarrow>
               if exc_cls e = ValidationError then (Inl (Exc ValueError (exc_text e)), w)
               else (Inl e, w)
           | Inr level' \<Rightarrow>
               bindx (set_level E m device_id (int_of_value level')) (\<lambda>success.
                 ok [(U ''device_id'', PyStr device_id), (U ''action'', PyStr (U ''set_level'')),
                     (U ''level'', level'), (U ''success'', PyBool success)]) w))"

text \<open>The code points of the three pictographs in the messages of the pair tool.\<close>

definition cross_mark :: pystr where
  "cross_mark = [10060]"

definition check_mark :: pystr where
  "check_mark = [9989]"

definition radio_button :: pystr where
  "radio_button = [128280]"

definition tool_ready_callback :: callback where
  "tool_ready_callback =
     Callback (radio_button @ U '' PRESS THE BUTTON NOW: Find the small black button on the back of your Lutron Caseta bridge and press it now! You have 30 seconds...'')"

definition pairing_error_dict :: "py_exc \<Rightarrow> py_dict" where
  "pairing_error_dict e =
     [(U ''success'', PyBool False),
      (U ''message'',
       PyStr (cross_mark @ U '' ERROR: Pairing process failed with error: '' @ exc_text e)),
      (U ''status'',
       PyStr (U ''An unexpected error occurred. Please check that your bridge IP is correct and try again.'')),
      (U ''connected'', PyBool False)]"

definition certificate_files :: "(pystr \<times> pystr) list option \<Rightarrow> py_value" where
  "certificate_files d =
     (case d of None \<Rightarrow> PyNone | Some kvs \<Rightarrow> PyDict (map (\<lambda>(k, v). (PyStr k, PyStr v)) kvs))"

text \<open>
  \<^verbatim>\<open>pair_bridge_tool\<close>. The global \<^verbatim>\<open>server_state\<close> goes in and comes out. The call of
  \<^verbatim>\<open>get_cert_dir\<close> stands before the \<^verbatim>\<open>try\<close> block; an instance of \<^verbatim>\<open>Exception\<close>
  that the block raises becomes the error dictionary.
\<close>

definition pair_bridge_tool ::
  "env \<Rightarrow> server_state option \<Rightarrow> pystr \<Rightarrow> world \<Rightarrow> (py_exc + py_dict) \<times> server_state option \<times> world" where
  "pair_bridge_tool E ss host w =
     (case validate_host_ip (ip_address E) host of
        Inl e \<Rightarrow>
          if exc_cls e = ValidationError
          then (Inr [(U ''success'', PyBool False),
                     (U ''message'', PyStr (cross_mark @ U '' INVALID INPUT: '' @ exc_text e)),
                     (U ''status'',
                      PyStr (U ''Please provide a valid IP address for your Lutron Caseta bridge.'')),
                     (U ''connected'', PyBool False)], ss, w)
          else (Inl e, ss, w)
      | Inr host' \<Rightarrow>
          (case ss of
             None \<Rightarrow>
               (Inr [(U ''success'', PyBool False),
                     (U ''message'', PyStr (cross_mark @ U '' ERROR: Server state not initialized'')),
                     (U ''status'',
                      PyStr (U ''Internal server error. Please restart the MCP server.'')),
                     (U ''connected'', PyBool False)], ss, w)
           | Some st \<Rightarrow>
               (case get_cert_dir E w of
                  (Inl e, w1) \<Rightarrow> (Inl e, ss, w1)
                | (Inr cert_dir, w1) \<Rightarrow>
                    (case pair_bridge E host' cert_dir (Some tool_ready_callback) w1 of
                       (Inl e, w2) \<Rightarrow>
                         if is_Exception e then (Inr (pairing_error_dict e), ss, w2)
                         else (Inl e, ss, w2)
                     | (Inr result, w2) \<Rightarrow>
                         if success result
                         then
                           (case update_config E st host' w2 of
                              (Inl e, st1, w3) \<Rightarrow>
                                if is_Exception e then (Inr (pairing_error_dict e), Some st1, w3)
                                else (Inl e, Some st1, w3)
                            | (Inr _, st1, w3) \<Rightarrow>
                                let key_path = os_path_join cert_dir (U ''caseta.key'');
                                    cert_path = os_path_join cert_dir (U ''caseta.crt'');
                                    ca_path = os_path_join cert_dir (U ''caseta-bridge.crt'');
                                    m = new_manager host' key_path cert_path ca_path in
                                (case connect E m w3 of
                                   (Inl e, m1, w4) \<Rightarrow>
                                     if is_Exception e
                                     then (Inr (pairing_error_dict e),
                                           Some (st1\<lparr>caseta_manager := Some m1\<rparr>), w4)
                                     else (Inl e, Some (st1\<lparr>caseta_manager := Some m1\<rparr>), w4)
                                 | (Inr connected', m1, w4) \<Rightarrow>
                                     (Inr [(U ''success'', PyBool True),
                                           (U ''message'',
                                            PyStr (check_mark @ U '' SUCCESS: Bridge paired successfully! '' @
                                                   message result)),
                                           (U ''status'',
                                            PyStr (U ''Your Lutron Caseta bridge is now connected and ready to control lights.'')),
                                           (U ''connected'', PyBool connected'),
                                           (U ''certificate_files'', certificate_files (data result))],
                                      Some (st1\<lparr>caseta_manager := Some m1, srv_connected := connected'\<rparr>),
                                      w4)))
                         else
                           (Inr [(U ''success'', PyBool False),
                                 (U ''message'', PyStr (cross_mark @ U '' FAILED: '' @ message result)),
                                 (U ''status'',
                                  PyStr (U ''Pairing failed. Please try again and make sure to press the small black button on the back of your bridge when the pairing starts.'')),
                                 (U ''connected'', PyBool False)], ss, w2)))))"

text \<open>None of the calls \<open>evs\<close>, made one after the other from the trace \<open>t\<close>, raises.\<close>

fun calls_succeed :: "env \<Rightarrow> event list \<Rightarrow> event list \<Rightarrow> bool" where
  "calls_succeed E t [] = True"
| "calls_succeed E t (ev # evs) = (raises E t ev = None \<and> calls_succeed E (t @ [ev]) evs)"

text \<open>The invariant of a manager: the connected flag is only set once a bridge handle exists.\<close>

definition manager_inv :: "manager \<Rightarrow> bool" where
  "manager_inv m \<longleftrightarrow> (connected m \<longrightarrow> bridge m \<noteq> None)"

text \<open>A quiet environment and an empty world, on which the statements below are exercised.\<close>

definition test_env :: env where
  "test_env =
     \<lparr>getenv = Map.empty,
      ip_address = (\<lambda>s. s = U ''192.168.1.100'' \<or> s = U ''::1''),
      lower = map (\<lambda>c. if 65 \<le> c \<and> c \<le> 90 then c + 32 else c),
      os_expanduser = (\<lambda>s. U ''/home/user'' @ drop 1 s),
      expanduser = (\<lambda>s. Inr (Path (U ''/'') [s])),
      resolve = (\<lambda>s. Inr (Path (U ''/'') [s])),
      home_dir = Inr (Path (U ''/'') [U ''home'', U ''user'']),
      tmp_dir = Inr (Path (U ''/'') [U ''tmp'']),
      absolute = (\<lambda>p. Inr p),
      default_mode = 420,
      async_pair_result = (\<lambda>t h.
        Inr [U ''ca'' \<mapsto> U ''CA'', U ''cert'' \<mapsto> U ''CERT'', U ''key'' \<mapsto> U ''KEY'',
             U ''version'' \<mapsto> U ''1.0'']),
      async_pair_ready = (\<lambda>t h. True),
      raises = (\<lambda>t ev. None),
      bridge_devices = (\<lambda>t b d. None)\<rparr>"

definition refusing_env :: env where
  "refusing_env = test_env\<lparr>raises := (\<lambda>t ev. case ev of
      BridgeConnect _ \<Rightarrow> Some (Exc OtherException (U ''Connection failed'')) | _ \<Rightarrow> None)\<rparr>"

definition timeout_env :: env where
  "timeout_env =
     test_env\<lparr>async_pair_result := (\<lambda>t h. Inl (Exc OtherException (U ''Pairing timeout'')))\<rparr>"

definition cancelled_env :: env where
  "cancelled_env = test_env\<lparr>async_pair_result := (\<lambda>t h. Inl (Exc CancelledError []))\<rparr>"

definition cancelled_connect_env :: env where
  "cancelled_connect_env = test_env\<lparr>raises := (\<lambda>t ev. case ev of
      BridgeConnect _ \<Rightarrow> Some (Exc CancelledError []) | _ \<Rightarrow> None)\<rparr>"

definition close_fails_env :: env where
  "close_fails_env = test_env\<lparr>raises := (\<lambda>t ev. case ev of
      BridgeClose _ \<Rightarrow> Some (Exc OSError (U ''Connection reset by peer'')) | _ \<Rightarrow> None)\<rparr>"

definition test_manager :: manager where
  "test_manager =
     new_manager (U ''192.168.1.100'') (U ''caseta.key'') (U ''caseta.crt'') (U ''caseta-bridge.crt'')"

definition test_bridge :: smartbridge where
  "test_bridge =
     Smartbridge (U ''192.168.1.100'') (U ''caseta.key'') (U ''caseta.crt'') (U ''caseta-bridge.crt'')"

definition connected_manager_example :: manager where
  "connected_manager_example = test_manager\<lparr>bridge := Some test_bridge, connected := True\<rparr>"

definition connected_state :: server_state where
  "connected_state =
     \<lparr>config = None, caseta_manager = Some connected_manager_example, srv_connected = True\<rparr>"

definition empty_world :: world where
  "empty_world = \<lparr>trace = [], files = Map.empty, dirs = {}\<rparr>"

section \<open>Facts about the validators\<close>


lemma dropWhile_all: "(\<forall>c\<in>set s. P c) \<Longrightarrow> dropWhile P s = []"
  by simp

lemma strip_blank_iff: "strip s = [] \<longleftrightarrow> (\<forall>c\<in>set s. is_space c)"
proof
  assume "strip s = []"
  then have a: "\<forall>c\<in>set (dropWhile is_space s). is_space c"
    by (simp add: strip_def)
  have "dropWhile is_space s = []"
  proof (rule ccontr)
    assume "dropWhile is_space s \<noteq> []"
    then have "\<not> is_space (hd (dropWhile is_space s))" by (rule hd_dropWhile)
    moreover have "hd (dropWhile is_space s) \<in> set (dropWhile is_space s)"
      using \<open>dropWhile is_space s \<noteq> []\<close> by simp
    ultimately show False using a by blast
  qed
  then show "\<forall>c\<in>set s. is_space c" by simp
next
  assume "\<forall>c\<in>set s. is_space c"
  then have d: "dropWhile is_space s = []" by (rule dropWhile_all)
  show "strip s = []" unfolding strip_def d by simp
qed

lemma dropWhile_skip: "(\<forall>c\<in>set a. P c) \<Longrightarrow> dropWhile P (a @ b) = dropWhile P b"
  by (induction a) auto

lemma strip_surrounded:
  assumes "lit \<noteq> []" "\<not> is_space (hd lit)" "\<not> is_space (last lit)"
    and "\<forall>c\<in>set pre. is_space c" "\<forall>c\<in>set post. is_space c"
  shows "strip (pre @ lit @ post) = lit"
proof -
  have "dropWhile is_space (pre @ lit @ post) = lit @ post"
    using assms(1,2,4) by (cases lit) (simp_all add: dropWhile_skip)
  moreover have "dropWhile is_space (rev post @ rev lit) = rev lit"
  proof -
    have "dropWhile is_space (rev post @ rev lit) = dropWhile is_space (rev lit)"
      using assms(5) by (simp add: dropWhile_skip)
    moreover have "dropWhile is_space (rev lit) = rev lit"
    proof (cases "rev lit")
      case Nil
      then show ?thesis by simp
    next
      case (Cons a list)
      then have "a = last lit" using assms(1) by (metis hd_rev list.sel(1))
      then have "\<not> is_space a" using assms(3) by simp
      then show ?thesis unfolding Cons by simp
    qed
    ultimately show ?thesis by simp
  qed
  ultimately show ?thesis by (simp add: strip_def)
qed

lemma validate_host_ip_class: "validate_host_ip ip host = Inl e \<Longrightarrow> exc_cls e = ValidationError"
  by (auto simp: validate_host_ip_def Let_def split: if_splits)

lemma validate_domain_class: "validate_domain l d = Inl e \<Longrightarrow> exc_cls e = ValidationError"
  by (auto simp: validate_domain_def Let_def split: if_splits)

lemma validate_device_level_class: "validate_device_level v = Inl e \<Longrightarrow> exc_cls e = ValidationError"
  by (auto simp: validate_device_level_def split: if_splits)

section \<open>Level validation\<close>

text \<open>
  C9. Level validation accepts both booleans: the \<^verbatim>\<open>isinstance\<close> check treats a boolean
  as an integer and both values lie in the range, so \<^verbatim>\<open>validate_device_level(b)\<close> returns
  \<open>b\<close> itself.
\<close>

theorem validate_device_level_bool:
  "validate_device_level (PyBool b) = Inr (PyBool b)"
  by (simp add: validate_device_level_def)

text \<open>
  C4. Level validation returns an integer of \<open>[0, 100]\<close> unchanged, rejects every other
  integer with the value in the message, and rejects a value that is not an instance of
  \<^verbatim>\<open>int\<close> (a string, a float, \<^verbatim>\<open>None\<close>, a list) with a message naming its type, without
  coercing it. What it accepts is exactly the instances of \<^verbatim>\<open>int\<close> with a value in the
  range.
\<close>

theorem validate_device_level_spec:
  "(0 \<le> n \<and> n \<le> 100 \<longrightarrow> validate_device_level (PyInt n) = Inr (PyInt n)) \<and>
   (n < 0 \<or> 100 < n \<longrightarrow>
      validate_device_level (PyInt n) =
        Inl (Exc ValidationError (U ''Device level must be between 0 and 100, got '' @ str_int n))) \<and>
   (\<not> isinstance_int v \<longrightarrow>
      validate_device_level v =
        Inl (Exc ValidationError (U ''Device level must be an integer, got '' @ type_name v))) \<and>
   (validate_device_level v = Inr r \<longleftrightarrow>
      r = v \<and> isinstance_int v \<and> 0 \<le> int_of_value v \<and> int_of_value v \<le> 100)"
  by (auto simp: validate_device_level_def)

theorem validate_device_level_spec_witness:
  "validate_device_level (PyInt 50) = Inr (PyInt 50) \<and>
   validate_device_level (PyInt 150) =
     Inl (Exc ValidationError (U ''Device level must be between 0 and 100, got 150'')) \<and>
   validate_device_level (PyInt (- 1)) =
     Inl (Exc ValidationError (U ''Device level must be between 0 and 100, got -1'')) \<and>
   validate_device_level (PyStr (U ''50'')) =
     Inl (Exc ValidationError (U ''Device level must be an integer, got str'')) \<and>
   validate_device_level (PyFloat 101 (- 1)) =
     Inl (Exc ValidationError (U ''Device level must be an integer, got float'')) \<and>
   validate_device_level PyNone =
     Inl (Exc ValidationError (U ''Device level must be an integer, got NoneType'')) \<and>
   validate_device_level (PyList [PyInt 50]) =
     Inl (Exc ValidationError (U ''Device level must be an integer, got list''))"
  using validate_device_level_spec [of 50 "PyStr (U ''50'')" "PyInt 50"]
    validate_device_level_spec [of 150 "PyFloat 101 (- 1)" "PyInt 50"]
    validate_device_level_spec [of "- 1" PyNone "PyInt 50"]
    validate_device_level_spec [of 50 "PyList [PyInt 50]" "PyInt 50"]
  by (simp add: str_int_def str_nat.simps)

section \<open>Host validation\<close>

text \<open>
  C5. Host validation rejects the empty and the whitespace-only string with \<^emph>\<open>cannot be
  empty\<close>; it rejects a string whose trimmed form the parser refuses with a format error
  that echoes the trimmed form; and it returns the trimmed form when the parser takes it,
  so a literal with whitespace around it comes back as the bare literal.
\<close>

theorem validate_host_ip_spec:
  "((\<forall>c\<in>set host. is_space c) \<longrightarrow>
      validate_host_ip ip host = Inl (Exc ValidationError (U ''Host IP cannot be empty''))) \<and>
   (\<not> (\<forall>c\<in>set host. is_space c) \<and> \<not> ip (strip host) \<longrightarrow>
      validate_host_ip ip host =
        Inl (Exc ValidationError (U ''Invalid IP address format: '' @ strip host))) \<and>
   (\<not> (\<forall>c\<in>set host. is_space c) \<and> ip (strip host) \<longrightarrow>
      validate_host_ip ip host = Inr (strip host)) \<and>
   (ip lit \<and> lit \<noteq> [] \<and> \<not> is_space (hd lit) \<and> \<not> is_space (last lit) \<and>
    (\<forall>c\<in>set pre. is_space c) \<and> (\<forall>c\<in>set post. is_space c) \<longrightarrow>
      validate_host_ip ip (pre @ lit @ post) = Inr lit)"
proof (intro conjI impI)
  assume "\<forall>c\<in>set host. is_space c"
  then have "strip host = []" by (simp add: strip_blank_iff)
  then show "validate_host_ip ip host = Inl (Exc ValidationError (U ''Host IP cannot be empty''))"
    by (simp add: validate_host_ip_def)
next
  assume a: "\<not> (\<forall>c\<in>set host. is_space c) \<and> \<not> ip (strip host)"
  then have "strip host \<noteq> []" "host \<noteq> []" by (auto simp: strip_blank_iff)
  with a show "validate_host_ip ip host =
        Inl (Exc ValidationError (U ''Invalid IP address format: '' @ strip host))"
    by (simp add: validate_host_ip_def)
next
  assume a: "\<not> (\<forall>c\<in>set host. is_space c) \<and> ip (strip host)"
  then have "strip host \<noteq> []" "host \<noteq> []" by (auto simp: strip_blank_iff)
  with a show "validate_host_ip ip host = Inr (strip host)"
    by (simp add: validate_host_ip_def)
next
  assume a: "ip lit \<and> lit \<noteq> [] \<and> \<not> is_space (hd lit) \<and> \<not> is_space (last lit) \<and>
    (\<forall>c\<in>set pre. is_space c) \<and> (\<forall>c\<in>set post. is_space c)"
  then have s: "strip (pre @ lit @ post) = lit" by (simp add: strip_surrounded)
  with a show "validate_host_ip ip (pre @ lit @ post) = Inr lit"
    by (simp add: validate_host_ip_def)
qed

theorem validate_host_ip_spec_witness:
  "validate_host_ip (ip_address test_env) (U ''   '') =
     Inl (Exc ValidationError (U ''Host IP cannot be empty'')) \<and>
   validate_host_ip (ip_address test_env) (U ''invalid.ip'') =
     Inl (Exc ValidationError (U ''Invalid IP address format: invalid.ip'')) \<and>
   validate_host_ip (ip_address test_env) (U ''  192.168.1.100  '') = Inr (U ''192.168.1.100'')"
  using validate_host_ip_spec [of "U ''   ''" "ip_address test_env" "U ''192.168.1.100''" "U ''  ''" "U ''  ''"]
    validate_host_ip_spec [of "U ''invalid.ip''" "ip_address test_env" "U ''192.168.1.100''" "U ''  ''" "U ''  ''"]
  by (simp add: test_env_def is_space_def strip_def)

section \<open>Facts about actions and the file system\<close>

lemma bindx_Inr_iff:
  "bindx m f s = (Inr r, s') \<longleftrightarrow> (\<exists>x s1. m s = (Inr x, s1) \<and> f x s1 = (Inr r, s'))"
  by (auto simp: bindx_def split: prod.splits sum.splits)

lemma pure_step_Inr: "pure_step v s = (Inr x, s1) \<longleftrightarrow> v = Inr x \<and> s1 = s"
  by (auto simp: pure_step_def)

lemma subscript_Inr: "subscript d k = Inr v \<longleftrightarrow> d k = Some v"
  by (auto simp: subscript_def split: option.splits)

lemma ext_call_Inr:
  "ext_call E ev w = (Inr x, w1) \<longleftrightarrow> raises E (trace w) ev = None \<and> w1 = emit ev w"
  by (auto simp: ext_call_def split: option.splits)

lemma mkdir_Inr:
  "mkdir E p w = (Inr x, w1) \<Longrightarrow>
     w1 = w\<lparr>trace := trace w @ [Mkdir p], dirs := dirs w \<union> ancestors p\<rparr>"
  by (auto simp: mkdir_def bindx_Inr_iff ext_call_Inr emit_def)

lemma write_text_Inr:
  "write_text E p d k w = (Inr x, w1) \<Longrightarrow>
     \<exists>s. d k = Some s \<and>
       w1 = w\<lparr>trace := trace w @ [OpenW p, Write p s],
              files := (files w)(p \<mapsto> \<lparr>content = s,
                mode = (case files w p of None \<Rightarrow> default_mode E | Some f \<Rightarrow> mode f)\<rparr>)\<rparr>"
  by (auto simp: write_text_def open_w_def write_file_def bindx_Inr_iff ext_call_Inr emit_def
      pure_step_Inr subscript_Inr split: option.splits)

lemma chmod_Inr:
  "chmod E p m w = (Inr x, w1) \<Longrightarrow>
     \<exists>f. files w p = Some f \<and>
       w1 = w\<lparr>trace := trace w @ [Chmod p m], files := (files w)(p \<mapsto> f\<lparr>mode := m\<rparr>)\<rparr>"
  by (auto simp: chmod_def bindx_Inr_iff ext_call_Inr emit_def split: option.splits)

lemma self_in_ancestors: "p \<in> ancestors p"
proof (cases p)
  case (Path a ps)
  have "ps \<in> set (prefixes ps)" by simp
  then have "Path a ps \<in> Path a ` set (prefixes ps)" by (rule imageI)
  then show ?thesis by (simp add: ancestors_def Path)
qed

lemma async_pair_Inr:
  "async_pair E host cb w = (Inr creds, w0) \<Longrightarrow>
     async_pair_result E (trace w) host = Inr creds \<and> files w0 = files w \<and> dirs w0 = dirs w"
  by (auto simp: async_pair_def Let_def ready_def emit_def split: option.splits if_splits)

lemma catchx_success:
  assumes "catchx m (\<lambda>e. ok (h e)) s = (Inr r, s')" and "success r" and "\<And>e. \<not> success (h e)"
  shows "m s = (Inr r, s')"
  using assms by (auto simp: catchx_def ok_def split: prod.splits sum.splits if_splits)

lemma pair_bridge_try_Inr:
  assumes "pair_bridge_try E host output_dir cb w = (Inr r, w')"
  shows "\<exists>creds w0 output_path ca cert key version.
     async_pair E host cb w = (Inr creds, w0) \<and>
     expanduser E output_dir = Inr output_path \<and>
     creds (U ''ca'') = Some ca \<and> creds (U ''cert'') = Some cert \<and>
     creds (U ''key'') = Some key \<and> creds (U ''version'') = Some version \<and>
     (let ca_path = joinpath output_path (U ''caseta-bridge.crt'');
          cert_path = joinpath output_path (U ''caseta.crt'');
          key_path = joinpath output_path (U ''caseta.key'');
          mode_of = (\<lambda>p. case files w p of None \<Rightarrow> default_mode E | Some f \<Rightarrow> mode f) in
      trace w' = trace w0 @
        [Mkdir output_path,
         OpenW ca_path, Write ca_path ca,
         OpenW cert_path, Write cert_path cert,
         OpenW key_path, Write key_path key,
         Chmod key_path 384] \<and>
      dirs w' = dirs w \<union> ancestors output_path \<and> output_path \<in> dirs w' \<and>
      files w' = (files w)
        (ca_path \<mapsto> \<lparr>content = ca, mode = mode_of ca_path\<rparr>,
         cert_path \<mapsto> \<lparr>content = cert, mode = mode_of cert_path\<rparr>,
         key_path \<mapsto> \<lparr>content = key, mode = 384\<rparr>) \<and>
      success r \<and>
      data r = Some [(U ''version'', version), (U ''ca_path'', str_path ca_path),
                     (U ''cert_path'', str_path cert_path), (U ''key_path'', str_path key_path)])"
  using assms
  apply (clarsimp simp: pair_bridge_try_def bindx_Inr_iff pure_step_Inr subscript_Inr Let_def ok_def)
  apply (drule mkdir_Inr)
  apply (drule write_text_Inr)+
  apply (drule chmod_Inr)
  apply (drule async_pair_Inr)
  apply (clarsimp simp: joinpath_def self_in_ancestors)
  done

lemma mkdir_ok:
  "raises E (trace w) (Mkdir p) = None \<Longrightarrow>
   mkdir E p w = (Inr (), w\<lparr>trace := trace w @ [Mkdir p], dirs := dirs w \<union> ancestors p\<rparr>)"
  by (simp add: mkdir_def bindx_def ext_call_def emit_def)

lemma write_text_ok:
  "raises E (trace w) (OpenW p) = None \<Longrightarrow> raises E (trace w @ [OpenW p]) (Write p s) = None \<Longrightarrow>
   d k = Some s \<Longrightarrow>
   write_text E p d k w =
     (Inr (), w\<lparr>trace := trace w @ [OpenW p, Write p s],
                files := (files w)(p \<mapsto> \<lparr>content = s,
                  mode = (case files w p of None \<Rightarrow> default_mode E | Some f \<Rightarrow> mode f)\<rparr>)\<rparr>)"
  by (simp add: write_text_def open_w_def write_file_def bindx_def ext_call_def emit_def
      pure_step_def subscript_def)

lemma chmod_ok:
  "raises E (trace w) (Chmod p m) = None \<Longrightarrow> files w p = Some f \<Longrightarrow>
   chmod E p m w =
     (Inr (), w\<lparr>trace := trace w @ [Chmod p m], files := (files w)(p \<mapsto> f\<lparr>mode := m\<rparr>)\<rparr>)"
  by (simp add: chmod_def bindx_def ext_call_def emit_def)

lemma bindx_ok: "m s = (Inr x, s1) \<Longrightarrow> bindx m f s = f x s1"
  by (simp add: bindx_def)

lemma pair_bridge_try_forward:
  assumes cap_def: "cap = joinpath output_path (U ''caseta-bridge.crt'')"
    and certp_def: "certp = joinpath output_path (U ''caseta.crt'')"
    and keyp_def: "keyp = joinpath output_path (U ''caseta.key'')"
    and pair: "async_pair E host cb w = (Inr creds, w0)"
    and exp: "expanduser E output_dir = Inr output_path"
    and abs: "absolute E output_path = Inr absolute_path"
    and creds: "creds (U ''ca'') = Some ca" "creds (U ''cert'') = Some cert"
      "creds (U ''key'') = Some key" "creds (U ''version'') = Some version"
    and calls: "calls_succeed E (trace w0)
        [Mkdir output_path, OpenW cap, Write cap ca, OpenW certp,
         Write certp cert, OpenW keyp, Write keyp key, Chmod keyp 384]"
  shows "pair_bridge_try E host output_dir cb w =
     (Inr \<lparr>success = True,
           message = U ''Successfully paired with '' @ version @
                     U ''. Certificate files saved to: '' @ str_path absolute_path,
           data = Some [(U ''version'', version), (U ''ca_path'', str_path cap),
                        (U ''cert_path'', str_path certp),
                        (U ''key_path'', str_path keyp)]\<rparr>,
      w0\<lparr>trace := trace w0 @
            [Mkdir output_path, OpenW cap, Write cap ca, OpenW certp,
             Write certp cert, OpenW keyp, Write keyp key, Chmod keyp 384],
          dirs := dirs w0 \<union> ancestors output_path,
          files := (files w0)
            (cap \<mapsto> \<lparr>content = ca,
                mode = (case files w0 cap of None \<Rightarrow> default_mode E | Some f \<Rightarrow> mode f)\<rparr>,
             certp \<mapsto> \<lparr>content = cert,
                mode = (case files w0 certp of None \<Rightarrow> default_mode E | Some f \<Rightarrow> mode f)\<rparr>,
             keyp \<mapsto> \<lparr>content = key, mode = 384\<rparr>)\<rparr>)"
proof -
  have ne: "cap \<noteq> certp" "cap \<noteq> keyp" "certp \<noteq> keyp"
    unfolding cap_def certp_def keyp_def by (simp_all add: joinpath_def)
  define w1 where "w1 = w0\<lparr>trace := trace w0 @ [Mkdir output_path],
                              dirs := dirs w0 \<union> ancestors output_path\<rparr>"
  define w2 where "w2 = w1\<lparr>trace := trace w1 @ [OpenW cap, Write cap ca],
     files := (files w1)(cap \<mapsto> \<lparr>content = ca,
        mode = (case files w1 cap of None \<Rightarrow> default_mode E | Some f \<Rightarrow> mode f)\<rparr>)\<rparr>"
  define w3 where "w3 = w2\<lparr>trace := trace w2 @ [OpenW certp, Write certp cert],
     files := (files w2)(certp \<mapsto> \<lparr>content = cert,
        mode = (case files w2 certp of None \<Rightarrow> default_mode E | Some f \<Rightarrow> mode f)\<rparr>)\<rparr>"
  define w4 where "w4 = w3\<lparr>trace := trace w3 @ [OpenW keyp, Write keyp key],
     files := (files w3)(keyp \<mapsto> \<lparr>content = key,
        mode = (case files w3 keyp of None \<Rightarrow> default_mode E | Some f \<Rightarrow> mode f)\<rparr>)\<rparr>"
  define w5 where "w5 = w4\<lparr>trace := trace w4 @ [Chmod keyp 384],
     files := (files w4)(keyp \<mapsto> \<lparr>content = key, mode = 384\<rparr>)\<rparr>"
  have s1: "mkdir E output_path w0 = (Inr (), w1)"
    unfolding w1_def using calls by (intro mkdir_ok) simp
  have s2: "write_text E cap creds (U ''ca'') w1 = (Inr (), w2)"
    unfolding w2_def using calls creds by (intro write_text_ok) (simp_all add: w1_def)
  have s3: "write_text E certp creds (U ''cert'') w2 = (Inr (), w3)"
    unfolding w3_def using calls creds by (intro write_text_ok) (simp_all add: w1_def w2_def)
  have s4: "write_text E keyp creds (U ''key'') w3 = (Inr (), w4)"
    unfolding w4_def using calls creds
    by (intro write_text_ok) (simp_all add: w1_def w2_def w3_def)
  have s5: "chmod E keyp 384 w4 = (Inr (), w5)"
  proof -
    have "chmod E keyp 384 w4 =
      (Inr (), w4\<lparr>trace := trace w4 @ [Chmod keyp 384],
         files := (files w4)(keyp \<mapsto> \<lparr>content = key,
           mode = (case files w3 keyp of None \<Rightarrow> default_mode E | Some f \<Rightarrow> mode f)\<rparr>
             \<lparr>mode := 384\<rparr>)\<rparr>)"
      using calls by (intro chmod_ok) (simp_all add: w1_def w2_def w3_def w4_def)
    then show ?thesis by (simp add: w5_def)
  qed
  have run: "pair_bridge_try E host output_dir cb w =
     (Inr \<lparr>success = True,
           message = U ''Successfully paired with '' @ version @
                     U ''. Certificate files saved to: '' @ str_path absolute_path,
           data = Some [(U ''version'', version), (U ''ca_path'', str_path cap),
                        (U ''cert_path'', str_path certp),
                        (U ''key_path'', str_path keyp)]\<rparr>, w5)"
    using s1 s2 s3 s4 s5
    unfolding pair_bridge_try_def Let_def cap_def certp_def keyp_def
    by (simp only: bindx_def pair pure_step_def exp abs creds subscript_def ok_def
        prod.case sum.case option.case)
  have w5: "w5 = w0\<lparr>trace := trace w0 @
            [Mkdir output_path, OpenW cap, Write cap ca, OpenW certp,
             Write certp cert, OpenW keyp, Write keyp key, Chmod keyp 384],
          dirs := dirs w0 \<union> ancestors output_path,
          files := (files w0)
            (cap \<mapsto> \<lparr>content = ca,
                mode = (case files w0 cap of None \<Rightarrow> default_mode E | Some f \<Rightarrow> mode f)\<rparr>,
             certp \<mapsto> \<lparr>content = cert,
                mode = (case files w0 certp of None \<Rightarrow> default_mode E | Some f \<Rightarrow> mode f)\<rparr>,
             keyp \<mapsto> \<lparr>content = key, mode = 384\<rparr>)\<rparr>"
    using ne by (simp add: w1_def w2_def w3_def w4_def w5_def)
  show ?thesis using run unfolding w5 .
qed


lemma pair_bridge_raises_only_base:
  "pair_bridge E host output_dir cb w = (Inl e, w') \<Longrightarrow> \<not> is_Exception e"
  by (auto simp: pair_bridge_def catchx_def ok_def split: prod.splits sum.splits if_splits)

section \<open>The pairing flow\<close>

text \<open>
  C1, as claimed, fails: the \<^verbatim>\<open>except Exception\<close> clause of \<^verbatim>\<open>pair_bridge\<close> does not
  catch an exception that derives from \<^verbatim>\<open>BaseException\<close> only. When the task is cancelled
  while it awaits the pairing primitive, \<^verbatim>\<open>asyncio.CancelledError\<close> leaves \<^verbatim>\<open>pair_bridge\<close>
  and no result is returned.
\<close>

theorem pair_bridge_cancelled_counterexample:
  "pair_bridge cancelled_env (U ''192.168.1.100'') (U ''certs'') (Some tool_ready_callback)
     empty_world =
     (Inl (Exc CancelledError []),
      empty_world\<lparr>trace := [AsyncPair (U ''192.168.1.100''), Called tool_ready_callback]\<rparr>)"
  by (simp add: pair_bridge_def pair_bridge_try_def catchx_def bindx_def async_pair_def
      cancelled_env_def test_env_def empty_world_def ready_def emit_def Let_def)

text \<open>
  C1, amended. When the external pairing primitive raises an instance of \<^verbatim>\<open>Exception\<close>,
  \<^verbatim>\<open>pair_bridge\<close> returns a result with \<open>success = False\<close> whose message is
  \<^emph>\<open>Pairing failed:\<close> followed by the text of the error. When the primitive raises anything
  else, that exception goes on to the caller. In both cases the files and directories are
  as before: the only calls made are the primitive and, if the primitive asked for it, the
  ready notification. Whatever leaves \<^verbatim>\<open>pair_bridge\<close> as an exception is not an instance of
  \<^verbatim>\<open>Exception\<close>.
\<close>

theorem pair_bridge_primitive_raises:
  "(let w0 = (if async_pair_ready E (trace w) host
              then ready cb (emit (AsyncPair host) w) else emit (AsyncPair host) w) in
    (async_pair_result E (trace w) host = Inl e \<and> is_Exception e \<longrightarrow>
       pair_bridge E host output_dir cb w =
         (Inr \<lparr>success = False, message = U ''Pairing failed: '' @ exc_text e, data = None\<rparr>, w0)) \<and>
    (async_pair_result E (trace w) host = Inl e \<and> \<not> is_Exception e \<longrightarrow>
       pair_bridge E host output_dir cb w = (Inl e, w0)) \<and>
    files w0 = files w \<and> dirs w0 = dirs w) \<and>
   (\<forall>e' w'. pair_bridge E host output_dir cb w = (Inl e', w') \<longrightarrow> \<not> is_Exception e')"
proof -
  let ?w0 = "if async_pair_ready E (trace w) host
             then ready cb (emit (AsyncPair host) w) else emit (AsyncPair host) w"
  have p: "async_pair_result E (trace w) host = Inl e \<Longrightarrow> async_pair E host cb w = (Inl e, ?w0)"
    by (simp add: async_pair_def Let_def)
  have a: "async_pair_result E (trace w) host = Inl e \<and> is_Exception e \<longrightarrow>
       pair_bridge E host output_dir cb w =
         (Inr \<lparr>success = False, message = U ''Pairing failed: '' @ exc_text e, data = None\<rparr>, ?w0)"
    using p by (simp add: pair_bridge_def pair_bridge_try_def catchx_def bindx_def ok_def)
  have b: "async_pair_result E (trace w) host = Inl e \<and> \<not> is_Exception e \<longrightarrow>
       pair_bridge E host output_dir cb w = (Inl e, ?w0)"
    using p by (simp add: pair_bridge_def pair_bridge_try_def catchx_def bindx_def ok_def)
  have c: "files ?w0 = files w" "dirs ?w0 = dirs w"
    by (simp_all add: ready_def emit_def split: option.splits)
  have d: "\<forall>e' w'. pair_bridge E host output_dir cb w = (Inl e', w') \<longrightarrow> \<not> is_Exception e'"
    by (blast dest: pair_bridge_raises_only_base)
  show ?thesis unfolding Let_def using a b c d by blast
qed

theorem pair_bridge_primitive_raises_witness:
  "pair_bridge timeout_env (U ''192.168.1.100'') (U ''certs'') (Some tool_ready_callback) empty_world =
     (Inr \<lparr>success = False, message = U ''Pairing failed: Pairing timeout'', data = None\<rparr>,
      empty_world\<lparr>trace := [AsyncPair (U ''192.168.1.100''), Called tool_ready_callback]\<rparr>) \<and>
   pair_bridge cancelled_env (U ''192.168.1.100'') (U ''certs'') None empty_world =
     (Inl (Exc CancelledError []),
      empty_world\<lparr>trace := [AsyncPair (U ''192.168.1.100''),
         Print (U ''Press the small black button on the back of the bridge.''),
         Print (U ''You have 30 seconds...'')]\<rparr>)"
  using pair_bridge_primitive_raises
    [of timeout_env empty_world "U ''192.168.1.100''" "Some tool_ready_callback"
        "Exc OtherException (U ''Pairing timeout'')" "U ''certs''"]
    pair_bridge_primitive_raises
    [of cancelled_env empty_world "U ''192.168.1.100''" None "Exc CancelledError []" "U ''certs''"]
  by (simp add: Let_def timeout_env_def cancelled_env_def test_env_def empty_world_def ready_def
      emit_def)

text \<open>
  C6. When the primitive returns the four credentials and none of the file system calls
  raises, \<^verbatim>\<open>pair_bridge\<close> returns a success result that carries the version and the three
  paths, and it has made exactly these calls, in this order: the recursive \<^verbatim>\<open>mkdir\<close> of the
  output directory; open and write of \<^verbatim>\<open>caseta-bridge.crt\<close> with the CA certificate, of
  \<^verbatim>\<open>caseta.crt\<close> with the client certificate and of \<^verbatim>\<open>caseta.key\<close> with the key; and
  \<^verbatim>\<open>chmod\<close> of the key file to \<^verbatim>\<open>0o600\<close> (384). Afterwards the directory and its
  ancestors exist, the three files hold the three texts, the key file has mode \<^verbatim>\<open>0o600\<close>,
  and no other file has changed. Conversely, every run that returns a success result is
  such a run.
\<close>

theorem pair_bridge_success:
  "(async_pair E host cb w = (Inr creds, w0) \<and>
    expanduser E output_dir = Inr output_path \<and>
    absolute E output_path = Inr absolute_path \<and>
    creds (U ''ca'') = Some ca \<and> creds (U ''cert'') = Some cert \<and>
    creds (U ''key'') = Some key \<and> creds (U ''version'') = Some version \<and>
    calls_succeed E (trace w0)
      [Mkdir output_path,
       OpenW (joinpath output_path (U ''caseta-bridge.crt'')),
       Write (joinpath output_path (U ''caseta-bridge.crt'')) ca,
       OpenW (joinpath output_path (U ''caseta.crt'')),
       Write (joinpath output_path (U ''caseta.crt'')) cert,
       OpenW (joinpath output_path (U ''caseta.key'')),
       Write (joinpath output_path (U ''caseta.key'')) key,
       Chmod (joinpath output_path (U ''caseta.key'')) 384] \<longrightarrow>
    (let ca_path = joinpath output_path (U ''caseta-bridge.crt'');
         cert_path = joinpath output_path (U ''caseta.crt'');
         key_path = joinpath output_path (U ''caseta.key'');
         mode_of = (\<lambda>p. case files w0 p of None \<Rightarrow> default_mode E | Some f \<Rightarrow> mode f) in
     pair_bridge E host output_dir cb w =
       (Inr \<lparr>success = True,
             message = U ''Successfully paired with '' @ version @
                       U ''. Certificate files saved to: '' @ str_path absolute_path,
             data = Some [(U ''version'', version), (U ''ca_path'', str_path ca_path),
                          (U ''cert_path'', str_path cert_path),
                          (U ''key_path'', str_path key_path)]\<rparr>,
        w0\<lparr>trace := trace w0 @
              [Mkdir output_path,
               OpenW ca_path, Write ca_path ca,
               OpenW cert_path, Write cert_path cert,
               OpenW key_path, Write key_path key,
               Chmod key_path 384],
            dirs := dirs w0 \<union> ancestors output_path,
            files := (files w0)
              (ca_path \<mapsto> \<lparr>content = ca, mode = mode_of ca_path\<rparr>,
               cert_path \<mapsto> \<lparr>content = cert, mode = mode_of cert_path\<rparr>,
               key_path \<mapsto> \<lparr>content = key, mode = 384\<rparr>)\<rparr>))) \<and>
   (pair_bridge E host output_dir cb w = (Inr r, w') \<and> success r \<longrightarrow>
    (\<exists>creds w0 output_path ca cert key version.
       async_pair E host cb w = (Inr creds, w0) \<and>
       expanduser E output_dir = Inr output_path \<and>
       creds (U ''ca'') = Some ca \<and> creds (U ''cert'') = Some cert \<and>
       creds (U ''key'') = Some key \<and> creds (U ''version'') = Some version \<and>
       (let ca_path = joinpath output_path (U ''caseta-bridge.crt'');
            cert_path = joinpath output_path (U ''caseta.crt'');
            key_path = joinpath output_path (U ''caseta.key'');
            mode_of = (\<lambda>p. case files w p of None \<Rightarrow> default_mode E | Some f \<Rightarrow> mode f) in
        trace w' = trace w0 @
          [Mkdir output_path,
           OpenW ca_path, Write ca_path ca,
           OpenW cert_path, Write cert_path cert,
           OpenW key_path, Write key_path key,
           Chmod key_path 384] \<and>
        dirs w' = dirs w \<union> ancestors output_path \<and> output_path \<in> dirs w' \<and>
        files w' = (files w)
          (ca_path \<mapsto> \<lparr>content = ca, mode = mode_of ca_path\<rparr>,
           cert_path \<mapsto> \<lparr>content = cert, mode = mode_of cert_path\<rparr>,
           key_path \<mapsto> \<lparr>content = key, mode = 384\<rparr>) \<and>
        data r = Some [(U ''version'', version), (U ''ca_path'', str_path ca_path),
                       (U ''cert_path'', str_path cert_path),
                       (U ''key_path'', str_path key_path)])))"
proof (intro conjI impI)
  assume a: "async_pair E host cb w = (Inr creds, w0) \<and>
    expanduser E output_dir = Inr output_path \<and>
    absolute E output_path = Inr absolute_path \<and>
    creds (U ''ca'') = Some ca \<and> creds (U ''cert'') = Some cert \<and>
    creds (U ''key'') = Some key \<and> creds (U ''version'') = Some version \<and>
    calls_succeed E (trace w0)
      [Mkdir output_path,
       OpenW (joinpath output_path (U ''caseta-bridge.crt'')),
       Write (joinpath output_path (U ''caseta-bridge.crt'')) ca,
       OpenW (joinpath output_path (U ''caseta.crt'')),
       Write (joinpath output_path (U ''caseta.crt'')) cert,
       OpenW (joinpath output_path (U ''caseta.key'')),
       Write (joinpath output_path (U ''caseta.key'')) key,
       Chmod (joinpath output_path (U ''caseta.key'')) 384]"
  have t: "pair_bridge_try E host output_dir cb w = (Inr
     \<lparr>success = True,
      message = U ''Successfully paired with '' @ version @
                U ''. Certificate files saved to: '' @ str_path absolute_path,
      data = Some [(U ''version'', version),
         (U ''ca_path'', str_path (joinpath output_path (U ''caseta-bridge.crt''))),
         (U ''cert_path'', str_path (joinpath output_path (U ''caseta.crt''))),
         (U ''key_path'', str_path (joinpath output_path (U ''caseta.key'')))]\<rparr>,
     w0\<lparr>trace := trace w0 @
            [Mkdir output_path,
             OpenW (joinpath output_path (U ''caseta-bridge.crt'')),
             Write (joinpath output_path (U ''caseta-bridge.crt'')) ca,
             OpenW (joinpath output_path (U ''caseta.crt'')),
             Write (joinpath output_path (U ''caseta.crt'')) cert,
             OpenW (joinpath output_path (U ''caseta.key'')),
             Write (joinpath output_path (U ''caseta.key'')) key,
             Chmod (joinpath output_path (U ''caseta.key'')) 384],
          dirs := dirs w0 \<union> ancestors output_path,
          files := (files w0)
            (joinpath output_path (U ''caseta-bridge.crt'') \<mapsto> \<lparr>content = ca,
                mode = (case files w0 (joinpath output_path (U ''caseta-bridge.crt'')) of
                          None \<Rightarrow> default_mode E | Some f \<Rightarrow> mode f)\<rparr>,
             joinpath output_path (U ''caseta.crt'') \<mapsto> \<lparr>content = cert,
                mode = (case files w0 (joinpath output_path (U ''caseta.crt'')) of
                          None \<Rightarrow> default_mode E | Some f \<Rightarrow> mode f)\<rparr>,
             joinpath output_path (U ''caseta.key'') \<mapsto> \<lparr>content = key, mode = 384\<rparr>)\<rparr>)"
    using a by (intro pair_bridge_try_forward [OF refl refl refl]) blast+
  show "let ca_path = joinpath output_path (U ''caseta-bridge.crt'');
         cert_path = joinpath output_path (U ''caseta.crt'');
         key_path = joinpath output_path (U ''caseta.key'');
         mode_of = (\<lambda>p. case files w0 p of None \<Rightarrow> default_mode E | Some f \<Rightarrow> mode f) in
     pair_bridge E host output_dir cb w =
       (Inr \<lparr>success = True,
             message = U ''Successfully paired with '' @ version @
                       U ''. Certificate files saved to: '' @ str_path absolute_path,
             data = Some [(U ''version'', version), (U ''ca_path'', str_path ca_path),
                          (U ''cert_path'', str_path cert_path),
                          (U ''key_path'', str_path key_path)]\<rparr>,
        w0\<lparr>trace := trace w0 @
              [Mkdir output_path,
               OpenW ca_path, Write ca_path ca,
               OpenW cert_path, Write cert_path cert,
               OpenW key_path, Write key_path key,
               Chmod key_path 384],
            dirs := dirs w0 \<union> ancestors output_path,
            files := (files w0)
              (ca_path \<mapsto> \<lparr>content = ca, mode = mode_of ca_path\<rparr>,
               cert_path \<mapsto> \<lparr>content = cert, mode = mode_of cert_path\<rparr>,
               key_path \<mapsto> \<lparr>content = key, mode = 384\<rparr>)\<rparr>)"
    unfolding Let_def pair_bridge_def catchx_def t by (simp only: prod.case sum.case)
next
  assume "pair_bridge E host output_dir cb w = (Inr r, w') \<and> success r"
  then have run: "pair_bridge E host output_dir cb w = (Inr r, w')" and succ: "success r"
    by simp_all
  have "pair_bridge_try E host output_dir cb w = (Inr r, w')"
    using run succ unfolding pair_bridge_def by (rule catchx_success) simp
  then show "\<exists>creds w0 output_path ca cert key version.
       async_pair E host cb w = (Inr creds, w0) \<and>
       expanduser E output_dir = Inr output_path \<and>
       creds (U ''ca'') = Some ca \<and> creds (U ''cert'') = Some cert \<and>
       creds (U ''key'') = Some key \<and> creds (U ''version'') = Some version \<and>
       (let ca_path = joinpath output_path (U ''caseta-bridge.crt'');
            cert_path = joinpath output_path (U ''caseta.crt'');
            key_path = joinpath output_path (U ''caseta.key'');
            mode_of = (\<lambda>p. case files w p of None \<Rightarrow> default_mode E | Some f \<Rightarrow> mode f) in
        trace w' = trace w0 @
          [Mkdir output_path,
           OpenW ca_path, Write ca_path ca,
           OpenW cert_path, Write cert_path cert,
           OpenW key_path, Write key_path key,
           Chmod key_path 384] \<and>
        dirs w' = dirs w \<union> ancestors output_path \<and> output_path \<in> dirs w' \<and>
        files w' = (files w)
          (ca_path \<mapsto> \<lparr>content = ca, mode = mode_of ca_path\<rparr>,
           cert_path \<mapsto> \<lparr>content = cert, mode = mode_of cert_path\<rparr>,
           key_path \<mapsto> \<lparr>content = key, mode = 384\<rparr>) \<and>
        data r = Some [(U ''version'', version), (U ''ca_path'', str_path ca_path),
                       (U ''cert_path'', str_path cert_path),
                       (U ''key_path'', str_path key_path)])"
    by (auto dest!: pair_bridge_try_Inr simp: Let_def)
qed

theorem pair_bridge_success_witness:
  "pair_bridge test_env (U ''192.168.1.100'') (U ''certs'') None empty_world =
     (Inr \<lparr>success = True,
           message = U ''Successfully paired with 1.0. Certificate files saved to: /certs'',
           data = Some [(U ''version'', U ''1.0''),
                        (U ''ca_path'', U ''/certs/caseta-bridge.crt''),
                        (U ''cert_path'', U ''/certs/caseta.crt''),
                        (U ''key_path'', U ''/certs/caseta.key'')]\<rparr>,
      \<lparr>trace =
         [AsyncPair (U ''192.168.1.100''),
          Print (U ''Press the small black button on the back of the bridge.''),
          Print (U ''You have 30 seconds...''),
          Mkdir (Path (U ''/'') [U ''certs'']),
          OpenW (Path (U ''/'') [U ''certs'', U ''caseta-bridge.crt'']),
          Write (Path (U ''/'') [U ''certs'', U ''caseta-bridge.crt'']) (U ''CA''),
          OpenW (Path (U ''/'') [U ''certs'', U ''caseta.crt'']),
          Write (Path (U ''/'') [U ''certs'', U ''caseta.crt'']) (U ''CERT''),
          OpenW (Path (U ''/'') [U ''certs'', U ''caseta.key'']),
          Write (Path (U ''/'') [U ''certs'', U ''caseta.key'']) (U ''KEY''),
          Chmod (Path (U ''/'') [U ''certs'', U ''caseta.key'']) 384],
       files = [Path (U ''/'') [U ''certs'', U ''caseta-bridge.crt''] \<mapsto>
                  \<lparr>content = U ''CA'', mode = 420\<rparr>,
                Path (U ''/'') [U ''certs'', U ''caseta.crt''] \<mapsto>
                  \<lparr>content = U ''CERT'', mode = 420\<rparr>,
                Path (U ''/'') [U ''certs'', U ''caseta.key''] \<mapsto>
                  \<lparr>content = U ''KEY'', mode = 384\<rparr>],
       dirs = {Path (U ''/'') [], Path (U ''/'') [U ''certs'']}\<rparr>)"
proof -
  let ?creds = "[U ''ca'' \<mapsto> U ''CA'', U ''cert'' \<mapsto> U ''CERT'', U ''key'' \<mapsto> U ''KEY'',
                 U ''version'' \<mapsto> U ''1.0'']"
  let ?w0 = "\<lparr>trace = [AsyncPair (U ''192.168.1.100''),
          Print (U ''Press the small black button on the back of the bridge.''),
          Print (U ''You have 30 seconds...'')], files = Map.empty, dirs = {}\<rparr>"
  let ?out = "Path (U ''/'') [U ''certs'']"
  have pair: "async_pair test_env (U ''192.168.1.100'') None empty_world = (Inr ?creds, ?w0)"
    by (simp add: async_pair_def test_env_def empty_world_def ready_def emit_def Let_def)
  have exp: "expanduser test_env (U ''certs'') = Inr ?out"
    and abs: "absolute test_env ?out = Inr ?out"
    by (simp_all add: test_env_def)
  have creds: "?creds (U ''ca'') = Some (U ''CA'')" "?creds (U ''cert'') = Some (U ''CERT'')"
    "?creds (U ''key'') = Some (U ''KEY'')" "?creds (U ''version'') = Some (U ''1.0'')"
    by simp_all
  have calls: "calls_succeed test_env (trace ?w0)
      [Mkdir ?out,
       OpenW (joinpath ?out (U ''caseta-bridge.crt'')),
       Write (joinpath ?out (U ''caseta-bridge.crt'')) (U ''CA''),
       OpenW (joinpath ?out (U ''caseta.crt'')),
       Write (joinpath ?out (U ''caseta.crt'')) (U ''CERT''),
       OpenW (joinpath ?out (U ''caseta.key'')),
       Write (joinpath ?out (U ''caseta.key'')) (U ''KEY''),
       Chmod (joinpath ?out (U ''caseta.key'')) 384]"
    by (simp add: test_env_def)
  have dm: "default_mode test_env = 420"
    by (simp add: test_env_def)
  have h: "async_pair test_env (U ''192.168.1.100'') None empty_world = (Inr ?creds, ?w0) \<and>
    expanduser test_env (U ''certs'') = Inr ?out \<and>
    absolute test_env ?out = Inr ?out \<and>
    ?creds (U ''ca'') = Some (U ''CA'') \<and> ?creds (U ''cert'') = Some (U ''CERT'') \<and>
    ?creds (U ''key'') = Some (U ''KEY'') \<and> ?creds (U ''version'') = Some (U ''1.0'') \<and>
    calls_succeed test_env (trace ?w0)
      [Mkdir ?out,
       OpenW (joinpath ?out (U ''caseta-bridge.crt'')),
       Write (joinpath ?out (U ''caseta-bridge.crt'')) (U ''CA''),
       OpenW (joinpath ?out (U ''caseta.crt'')),
       Write (joinpath ?out (U ''caseta.crt'')) (U ''CERT''),
       OpenW (joinpath ?out (U ''caseta.key'')),
       Write (joinpath ?out (U ''caseta.key'')) (U ''KEY''),
       Chmod (joinpath ?out (U ''caseta.key'')) 384]"
    using pair exp abs creds calls by blast
  show ?thesis
    using pair_bridge_success
      [of test_env "U ''192.168.1.100''" None empty_world ?creds ?w0 "U ''certs''" ?out ?out
          "U ''CA''" "U ''CERT''" "U ''KEY''" "U ''1.0''", THEN conjunct1, THEN mp, OF h]
    by (simp add: Let_def joinpath_def str_path_def ancestors_def dm)
qed

section \<open>The connection manager\<close>

text \<open>
  C7, as claimed, fails: the \<^verbatim>\<open>except Exception\<close> clause of \<^verbatim>\<open>connect\<close> does not catch
  an exception that derives from \<^verbatim>\<open>BaseException\<close> only. When the task is cancelled while
  it awaits the handshake, \<^verbatim>\<open>asyncio.CancelledError\<close> leaves \<^verbatim>\<open>connect\<close>: nothing is
  logged and no boolean is returned.
\<close>

theorem connect_cancelled_counterexample:
  "connect cancelled_connect_env test_manager empty_world =
     (Inl (Exc CancelledError []), test_manager\<lparr>bridge := Some test_bridge\<rparr>,
      empty_world\<lparr>trace := [CreateTls (U ''192.168.1.100'') (U ''caseta.key'') (U ''caseta.crt'')
                                (U ''caseta-bridge.crt''),
                              BridgeConnect test_bridge]\<rparr>)"
  by (simp add: connect_def ext_call_def emit_def Let_def cancelled_connect_env_def test_env_def
      test_manager_def new_manager_def empty_world_def test_bridge_def)

text \<open>
  C7, amended. When \<^verbatim>\<open>create_tls\<close> and the handshake succeed, \<^verbatim>\<open>connect\<close> stores the
  handle, sets the connected flag and returns true. When either raises an instance of
  \<^verbatim>\<open>Exception\<close>, it logs the failure and returns false. When either raises anything else,
  that exception goes on to the caller and nothing is logged. Whatever leaves \<^verbatim>\<open>connect\<close>
  as an exception is not an instance of \<^verbatim>\<open>Exception\<close>, and a call that returns false
  leaves the connected flag as it was, so a manager that was disconnected stays
  disconnected.
\<close>

theorem connect_spec:
  "(let tls = CreateTls (bridge_ip m) (key_path m) (cert_path m) (ca_path m);
        b = Smartbridge (bridge_ip m) (key_path m) (cert_path m) (ca_path m);
        failed = (\<lambda>e. Log ERROR (U ''Failed to connect to Lutron Caseta bridge: '' @ exc_text e))
    in
    (raises E (trace w) tls = None \<and> raises E (trace w @ [tls]) (BridgeConnect b) = None \<longrightarrow>
       connect E m w =
         (Inr True, m\<lparr>bridge := Some b, connected := True\<rparr>,
          w\<lparr>trace := trace w @ [tls, BridgeConnect b]\<rparr>)) \<and>
    (\<forall>e. raises E (trace w) tls = Some e \<and> is_Exception e \<longrightarrow>
       connect E m w = (Inr False, m, w\<lparr>trace := trace w @ [tls, failed e]\<rparr>)) \<and>
    (\<forall>e. raises E (trace w) tls = None \<and> raises E (trace w @ [tls]) (BridgeConnect b) = Some e \<and>
         is_Exception e \<longrightarrow>
       connect E m w =
         (Inr False, m\<lparr>bridge := Some b\<rparr>,
          w\<lparr>trace := trace w @ [tls, BridgeConnect b, failed e]\<rparr>)) \<and>
    (\<forall>e. raises E (trace w) tls = Some e \<and> \<not> is_Exception e \<longrightarrow>
       connect E m w = (Inl e, m, w\<lparr>trace := trace w @ [tls]\<rparr>)) \<and>
    (\<forall>e. raises E (trace w) tls = None \<and> raises E (trace w @ [tls]) (BridgeConnect b) = Some e \<and>
         \<not> is_Exception e \<longrightarrow>
       connect E m w =
         (Inl e, m\<lparr>bridge := Some b\<rparr>, w\<lparr>trace := trace w @ [tls, BridgeConnect b]\<rparr>)) \<and>
    (\<forall>e m' w'. connect E m w = (Inl e, m', w') \<longrightarrow> \<not> is_Exception e) \<and>
    (\<forall>m' w'. connect E m w = (Inr False, m', w') \<longrightarrow> connected m' = connected m))"
  unfolding Let_def
proof (intro conjI allI impI)
  fix e m' w'
  assume "connect E m w = (Inl e, m', w')"
  then show "\<not> is_Exception e"
    by (auto simp: connect_def ext_call_def Let_def split: option.splits if_splits)
next
  fix m' w'
  assume "connect E m w = (Inr False, m', w')"
  then show "connected m' = connected m"
    by (auto simp: connect_def ext_call_def Let_def split: option.splits if_splits)
qed (simp_all add: connect_def ext_call_def emit_def logger_def Let_def)

theorem connect_spec_witness:
  "connect test_env test_manager empty_world =
     (Inr True, test_manager\<lparr>bridge := Some test_bridge, connected := True\<rparr>,
      empty_world\<lparr>trace := [CreateTls (U ''192.168.1.100'') (U ''caseta.key'') (U ''caseta.crt'')
                                (U ''caseta-bridge.crt''),
                              BridgeConnect test_bridge]\<rparr>) \<and>
   connect refusing_env test_manager empty_world =
     (Inr False, test_manager\<lparr>bridge := Some test_bridge\<rparr>,
      empty_world\<lparr>trace := [CreateTls (U ''192.168.1.100'') (U ''caseta.key'') (U ''caseta.crt'')
                                (U ''caseta-bridge.crt''),
                              BridgeConnect test_bridge,
                              Log ERROR (U ''Failed to connect to Lutron Caseta bridge: Connection failed'')]\<rparr>) \<and>
   \<not> connected (fst (snd (connect refusing_env test_manager empty_world))) \<and>
   connect cancelled_connect_env test_manager empty_world =
     (Inl (Exc CancelledError []), test_manager\<lparr>bridge := Some test_bridge\<rparr>,
      empty_world\<lparr>trace := [CreateTls (U ''192.168.1.100'') (U ''caseta.key'') (U ''caseta.crt'')
                                (U ''caseta-bridge.crt''),
                              BridgeConnect test_bridge]\<rparr>)"
proof -
  let ?tls = "CreateTls (U ''192.168.1.100'') (U ''caseta.key'') (U ''caseta.crt'')
                (U ''caseta-bridge.crt'')"
  have tl: "CreateTls (bridge_ip test_manager) (key_path test_manager) (cert_path test_manager)
              (ca_path test_manager) = ?tls"
    and tb: "Smartbridge (bridge_ip test_manager) (key_path test_manager)
              (cert_path test_manager) (ca_path test_manager) = test_bridge"
    and off: "\<not> connected (test_manager\<lparr>bridge := Some test_bridge\<rparr>)"
    by (simp_all add: test_manager_def new_manager_def test_bridge_def)
  have tr: "trace empty_world = []"
    by (simp add: empty_world_def)
  have q1: "raises test_env [] ?tls = None"
    and q2: "raises test_env [?tls] (BridgeConnect test_bridge) = None"
    by (simp_all add: test_env_def)
  have r1: "raises refusing_env [] ?tls = None"
    and r2: "raises refusing_env [?tls] (BridgeConnect test_bridge) =
               Some (Exc OtherException (U ''Connection failed''))"
    by (simp_all add: refusing_env_def test_env_def)
  have c1: "raises cancelled_connect_env [] ?tls = None"
    and c2: "raises cancelled_connect_env [?tls] (BridgeConnect test_bridge) =
               Some (Exc CancelledError [])"
    by (simp_all add: cancelled_connect_env_def test_env_def)
  have x1: "is_Exception (Exc OtherException (U ''Connection failed''))"
    and x2: "\<not> is_Exception (Exc CancelledError [])"
    by simp_all
  note spec1 = connect_spec [of test_manager test_env empty_world, unfolded Let_def tl tb tr,
      simplified append_Nil]
  note spec2 = connect_spec [of test_manager refusing_env empty_world, unfolded Let_def tl tb tr,
      simplified append_Nil]
  note spec3 = connect_spec [of test_manager cancelled_connect_env empty_world,
      unfolded Let_def tl tb tr, simplified append_Nil]
  have s1: "connect test_env test_manager empty_world =
     (Inr True, test_manager\<lparr>bridge := Some test_bridge, connected := True\<rparr>,
      empty_world\<lparr>trace := [?tls, BridgeConnect test_bridge]\<rparr>)"
    using spec1 q1 q2 by blast
  have s2: "connect refusing_env test_manager empty_world =
     (Inr False, test_manager\<lparr>bridge := Some test_bridge\<rparr>,
      empty_world\<lparr>trace := [?tls, BridgeConnect test_bridge,
        Log ERROR (U ''Failed to connect to Lutron Caseta bridge: '' @
                   exc_text (Exc OtherException (U ''Connection failed'')))]\<rparr>)"
    using spec2 r1 r2 x1 by blast
  have s3: "connect cancelled_connect_env test_manager empty_world =
     (Inl (Exc CancelledError []), test_manager\<lparr>bridge := Some test_bridge\<rparr>,
      empty_world\<lparr>trace := [?tls, BridgeConnect test_bridge]\<rparr>)"
    using spec3 c1 c2 x2 by blast
  show ?thesis
    unfolding s1 s2 s3 using off by simp
qed

lemma new_manager_inv: "manager_inv (new_manager ip key cert ca)"
  by (simp add: manager_inv_def new_manager_def)

lemma connect_inv: "manager_inv m \<Longrightarrow> connect E m w = (r, m', w') \<Longrightarrow> manager_inv m'"
  by (auto simp: connect_def ext_call_def manager_inv_def Let_def split: option.splits if_splits)

lemma disconnect_inv: "manager_inv m \<Longrightarrow> disconnect E m w = (r, m', w') \<Longrightarrow> manager_inv m'"
  by (auto simp: disconnect_def ext_call_def manager_inv_def split: option.splits if_splits)

text \<open>
  C8, as claimed, fails: \<^verbatim>\<open>disconnect\<close> does not guard the call of \<^verbatim>\<open>close\<close>. When
  \<^verbatim>\<open>close\<close> raises, the exception leaves \<^verbatim>\<open>disconnect\<close> and the manager stays connected;
  a second call closes again and raises again.
\<close>

theorem disconnect_close_raises_counterexample:
  "disconnect close_fails_env connected_manager_example empty_world =
     (Inl (Exc OSError (U ''Connection reset by peer'')), connected_manager_example,
      empty_world\<lparr>trace := [BridgeClose test_bridge]\<rparr>) \<and>
   disconnect close_fails_env connected_manager_example
       (empty_world\<lparr>trace := [BridgeClose test_bridge]\<rparr>) =
     (Inl (Exc OSError (U ''Connection reset by peer'')), connected_manager_example,
      empty_world\<lparr>trace := [BridgeClose test_bridge, BridgeClose test_bridge]\<rparr>) \<and>
   connected connected_manager_example \<and> manager_inv connected_manager_example"
  by (simp add: disconnect_def ext_call_def emit_def close_fails_env_def test_env_def
      connected_manager_example_def test_manager_def new_manager_def empty_world_def manager_inv_def)

text \<open>
  C8, amended. On a connected manager whose \<^verbatim>\<open>close\<close> does not raise, \<^verbatim>\<open>disconnect\<close>
  closes the bridge once and clears the connected flag, and a second call returns without
  an error, closes nothing and leaves the same disconnected state. On a disconnected
  manager it does nothing. When \<^verbatim>\<open>close\<close> raises, the exception leaves \<^verbatim>\<open>disconnect\<close> and
  the manager is unchanged. In general, for a manager that satisfies the invariant (which
  the constructor establishes and \<^verbatim>\<open>connect\<close> and \<^verbatim>\<open>disconnect\<close> keep), after any call
  that returned the manager is disconnected and a second call changes nothing.
\<close>

theorem disconnect_idempotent:
  "(bridge m = Some b \<and> connected m \<and> raises E (trace w) (BridgeClose b) = None \<longrightarrow>
      disconnect E m w = (Inr (), m\<lparr>connected := False\<rparr>, emit (BridgeClose b) w) \<and>
      disconnect E (m\<lparr>connected := False\<rparr>) (emit (BridgeClose b) w) =
        (Inr (), m\<lparr>connected := False\<rparr>, emit (BridgeClose b) w)) \<and>
   (\<not> connected m \<longrightarrow>
      disconnect E m w = (Inr (), m, w)) \<and>
   (bridge m = Some b \<and> connected m \<and> raises E (trace w) (BridgeClose b) = Some e \<longrightarrow>
      disconnect E m w = (Inl e, m, emit (BridgeClose b) w)) \<and>
   (manager_inv m \<and> disconnect E m w = (Inr (), m1, w1) \<longrightarrow>
      \<not> connected m1 \<and> disconnect E m1 w1 = (Inr (), m1, w1))"
  by (auto simp: disconnect_def ext_call_def manager_inv_def
      split: option.splits if_splits prod.splits sum.splits)


theorem disconnect_idempotent_witness:
  "disconnect test_env connected_manager_example empty_world =
     (Inr (), connected_manager_example\<lparr>connected := False\<rparr>,
      empty_world\<lparr>trace := [BridgeClose test_bridge]\<rparr>) \<and>
   disconnect test_env (connected_manager_example\<lparr>connected := False\<rparr>)
     (empty_world\<lparr>trace := [BridgeClose test_bridge]\<rparr>) =
     (Inr (), connected_manager_example\<lparr>connected := False\<rparr>,
      empty_world\<lparr>trace := [BridgeClose test_bridge]\<rparr>) \<and>
   disconnect test_env test_manager empty_world = (Inr (), test_manager, empty_world) \<and>
   \<not> connected (connected_manager_example\<lparr>connected := False\<rparr>)"
proof -
  have b: "bridge connected_manager_example = Some test_bridge"
    and c: "connected connected_manager_example"
    and n: "\<not> connected test_manager"
    by (simp_all add: connected_manager_example_def test_manager_def new_manager_def)
  have r: "raises test_env (trace empty_world) (BridgeClose test_bridge) = None"
    by (simp add: test_env_def)
  have e: "emit (BridgeClose test_bridge) empty_world =
      empty_world\<lparr>trace := [BridgeClose test_bridge]\<rparr>"
    by (simp add: emit_def empty_world_def)
  have h: "bridge connected_manager_example = Some test_bridge \<and>
      connected connected_manager_example \<and>
      raises test_env (trace empty_world) (BridgeClose test_bridge) = None"
    using b c r by blast
  note first = disconnect_idempotent
      [of connected_manager_example test_bridge test_env empty_world,
       THEN conjunct1, THEN mp, OF h, unfolded e]
  note noop = disconnect_idempotent
      [of test_manager test_bridge test_env empty_world,
       THEN conjunct2, THEN conjunct1, THEN mp, OF n]
  have off: "\<not> connected (connected_manager_example\<lparr>connected := False\<rparr>)"
    by simp
  show ?thesis
    using first noop off by blast
qed

text \<open>
  C2. On a manager whose connected flag is false, each guarded operation raises the
  \<^emph>\<open>not connected\<close> \<^verbatim>\<open>RuntimeError\<close> and leaves the world as it was: no call to the bridge
  client is recorded.
\<close>

theorem guarded_operations_not_connected:
  assumes "\<not> connected m"
  shows "get_devices_by_domain E m domain w = (Inl not_connected, w) \<and>
         turn_on E m device_id w = (Inl not_connected, w) \<and>
         turn_off E m device_id w = (Inl not_connected, w) \<and>
         set_level E m device_id level w = (Inl not_connected, w) \<and>
         not_connected = Exc RuntimeError (U ''Not connected to Lutron Caseta bridge'')"
  using assms
  by (simp add: get_devices_by_domain_def turn_on_def turn_off_def set_level_def not_connected_def)

theorem guarded_operations_not_connected_witness:
  "get_devices_by_domain test_env (new_manager (U ''192.168.1.100'') (U ''k'') (U ''c'') (U ''ca''))
     (U ''light'') empty_world = (Inl not_connected, empty_world) \<and>
   set_level test_env (new_manager (U ''192.168.1.100'') (U ''k'') (U ''c'') (U ''ca''))
     (U ''1'') 50 empty_world = (Inl not_connected, empty_world)"
  using guarded_operations_not_connected
    [of "new_manager (U ''192.168.1.100'') (U ''k'') (U ''c'') (U ''ca'')" test_env "U ''light''"
        empty_world "U ''1''" 50]
  by (simp add: new_manager_def)

section \<open>The tools\<close>

text \<open>
  C3, as claimed, fails: \<^verbatim>\<open>list_devices\<close> and \<^verbatim>\<open>set_device_level\<close> test the connection
  state before they validate. On a server that is not connected, an invalid domain and a
  level of 150 both get the \<^emph>\<open>not connected\<close> \<^verbatim>\<open>RuntimeError\<close>, not a validation
  failure.
\<close>

theorem tools_not_connected_counterexample:
  "isl (validate_domain (lower test_env) (U ''invalid_domain'')) \<and>
   list_devices test_env (Some new_server_state) (U ''invalid_domain'') empty_world =
     (Inl tool_not_connected, empty_world) \<and>
   isl (validate_device_level (PyInt 150)) \<and>
   set_device_level test_env (Some new_server_state) (U ''1'') (PyInt 150) empty_world =
     (Inl tool_not_connected, empty_world) \<and>
   exc_cls tool_not_connected = RuntimeError"
  by (simp add: validate_domain_def valid_domains_def test_env_def strip_def is_space_def
      list_devices_def set_device_level_def connected_manager_def new_server_state_def
      validate_device_level_def tool_not_connected_def Let_def)

text \<open>
  C3, amended. On a connected server an input that fails validation makes
  \<^verbatim>\<open>list_devices\<close> and \<^verbatim>\<open>set_device_level\<close> raise a \<^verbatim>\<open>ValueError\<close> with the validator's
  message, which differs from the \<^emph>\<open>not connected\<close> error, and the world is unchanged: the
  manager is not called. On a server that is not connected both raise \<^emph>\<open>not connected\<close>
  whatever the input.
\<close>

theorem tool_validation_when_connected:
  "(connected_manager ss = Some m \<and> validate_domain (lower E) domain = Inl e \<longrightarrow>
      list_devices E ss domain w = (Inl (Exc ValueError (exc_text e)), w)) \<and>
   (connected_manager ss = Some m \<and> validate_device_level level = Inl e \<longrightarrow>
      set_device_level E ss device_id level w = (Inl (Exc ValueError (exc_text e)), w)) \<and>
   (connected_manager ss = None \<longrightarrow>
      list_devices E ss domain w = (Inl tool_not_connected, w) \<and>
      set_device_level E ss device_id level w = (Inl tool_not_connected, w)) \<and>
   Exc ValueError (exc_text e) \<noteq> tool_not_connected"
  by (auto simp: list_devices_def set_device_level_def tool_not_connected_def
      dest: validate_domain_class validate_device_level_class)

theorem tool_validation_when_connected_witness:
  "list_devices test_env (Some connected_state) (U ''invalid_domain'') empty_world =
     (Inl (Exc ValueError
        (U ''Invalid domain '' @ [39] @ U ''invalid_domain'' @ [39] @
         U ''. Valid domains are: cover, fan, light, sensor, switch'')), empty_world) \<and>
   set_device_level test_env (Some connected_state) (U ''1'') (PyInt 150) empty_world =
     (Inl (Exc ValueError (U ''Device level must be between 0 and 100, got 150'')), empty_world) \<and>
   set_device_level test_env (Some connected_state) (U ''1'') (PyStr (U ''50'')) empty_world =
     (Inl (Exc ValueError (U ''Device level must be an integer, got str'')), empty_world) \<and>
   list_devices test_env (Some new_server_state) (U ''light'') empty_world =
     (Inl tool_not_connected, empty_world)"
proof -
  have s: "sort valid_domains = [U ''cover'', U ''fan'', U ''light'', U ''sensor'', U ''switch'']"
    unfolding valid_domains_def by code_simp
  have d: "validate_domain (lower test_env) (U ''invalid_domain'') =
     Inl (Exc ValidationError
        (U ''Invalid domain '' @ [39] @ U ''invalid_domain'' @ [39] @
         U ''. Valid domains are: cover, fan, light, sensor, switch''))"
    by (simp add: validate_domain_def s test_env_def strip_def is_space_def Let_def)
      (simp add: valid_domains_def)
  have l: "validate_device_level (PyInt 150) =
     Inl (Exc ValidationError (U ''Device level must be between 0 and 100, got 150''))"
    by (simp add: validate_device_level_def str_int_def str_nat.simps)
  have t: "validate_device_level (PyStr (U ''50'')) =
     Inl (Exc ValidationError (U ''Device level must be an integer, got str''))"
    by (simp add: validate_device_level_def)
  have c: "connected_manager (Some connected_state) = Some connected_manager_example"
    by (simp add: connected_manager_def connected_state_def)
  have n: "connected_manager (Some new_server_state) = None"
    by (simp add: connected_manager_def new_server_state_def)
  show ?thesis
    using tool_validation_when_connected
      [of "Some connected_state" connected_manager_example test_env "U ''invalid_domain''"
          "Exc ValidationError
            (U ''Invalid domain '' @ [39] @ U ''invalid_domain'' @ [39] @
             U ''. Valid domains are: cover, fan, light, sensor, switch'')"
          empty_world "PyInt 150" "U ''1''"]
      tool_validation_when_connected
      [of "Some connected_state" connected_manager_example test_env "U ''invalid_domain''"
          "Exc ValidationError (U ''Device level must be between 0 and 100, got 150'')"
          empty_world "PyInt 150" "U ''1''"]
      tool_validation_when_connected
      [of "Some connected_state" connected_manager_example test_env "U ''invalid_domain''"
          "Exc ValidationError (U ''Device level must be an integer, got str'')"
          empty_world "PyStr (U ''50'')" "U ''1''"]
      tool_validation_when_connected
      [of "Some new_server_state" connected_manager_example test_env "U ''light''"
          "Exc ValidationError []" empty_world "PyInt 150" "U ''1''"]
    unfolding c n d l t by simp
qed

text \<open>
  C10. When the host fails validation, \<^verbatim>\<open>pair_bridge_tool\<close> returns the failure dictionary
  (\<open>success\<close> and \<open>connected\<close> false, the validator's message after \<^emph>\<open>INVALID INPUT\<close>), and
  the server state and the world are the ones it was given: no configuration, manager or
  flag is touched, no pairing is attempted and nothing is written.
\<close>

theorem pair_bridge_tool_invalid_host:
  assumes "validate_host_ip (ip_address E) host = Inl e"
  shows "pair_bridge_tool E ss host w =
     (Inr [(U ''success'', PyBool False),
           (U ''message'', PyStr (cross_mark @ U '' INVALID INPUT: '' @ exc_text e)),
           (U ''status'', PyStr (U ''Please provide a valid IP address for your Lutron Caseta bridge.'')),
           (U ''connected'', PyBool False)], ss, w)"
  using assms validate_host_ip_class [OF assms]
  by (simp add: pair_bridge_tool_def)

theorem pair_bridge_tool_invalid_host_witness:
  "pair_bridge_tool test_env (Some new_server_state) (U ''invalid.ip'') empty_world =
     (Inr [(U ''success'', PyBool False),
           (U ''message'',
            PyStr (cross_mark @ U '' INVALID INPUT: Invalid IP address format: invalid.ip'')),
           (U ''status'', PyStr (U ''Please provide a valid IP address for your Lutron Caseta bridge.'')),
           (U ''connected'', PyBool False)], Some new_server_state, empty_world)"
proof -
  have v: "validate_host_ip (ip_address test_env) (U ''invalid.ip'') =
        Inl (Exc ValidationError (U ''Invalid IP address format: invalid.ip''))"
    by (simp add: validate_host_ip_def test_env_def strip_def is_space_def)
  show ?thesis
    using pair_bridge_tool_invalid_host [OF v, of "Some new_server_state" empty_world] by simp
qed

end
